theory Spec2Isabelle
  imports Complex_Main "HOL-Library.Sublist" "HOL-Library.Multiset"
begin

section \<open>Values thrown and caught\<close>

text \<open>
  A JavaScript \<^verbatim>\<open>throw\<close> can carry any value. The handlers of this repository only
  distinguish an instance of \<^verbatim>\<open>Error\<close> (of which they read \<^verbatim>\<open>message\<close>) from
  everything else (which they turn into text with \<^verbatim>\<open>String(error)\<close>). A thrown value is
  therefore either an error object with its message or another value with its text.
\<close>

datatype thrown = Error_obj string | Thrown_value string

text \<open>\<^verbatim>\<open>error instanceof Error ? error.message : String(error)\<close>\<close>

fun message_of :: "thrown \<Rightarrow> string" where
  "message_of (Error_obj m) = m"
| "message_of (Thrown_value v) = v"

section \<open>The Type-Check Prober (measure-typechecking.ts)\<close>

subsection \<open>Data model\<close>

text \<open>
  \<^verbatim>\<open>interface TimingResult\<close>. Times are the differences of two readings of
  \<^verbatim>\<open>performance.now()\<close>, in milliseconds; the double-precision numbers of the source
  are taken as real numbers. The optional \<^verbatim>\<open>error\<close> field is an option.
\<close>

record TimingResult =
  file_name :: string
  typeCheckTime :: real
  totalTime :: real
  diagnosticsCount :: nat
  success :: bool
  error :: "string option"

text \<open>
  The compiler API as the Prober uses it. Each call either returns or throws, and what it
  does is not under the control of this repository, so each one is a field of the
  environment. The types of configuration files, compiler options, programs and
  diagnostics are parameters.
\<close>

record ('c, 'o, 'p, 'd) ts_api =
  findConfigFile :: "thrown + string option"
  readConfigFile :: "string \<Rightarrow> thrown + 'c"
  parseJsonConfigFileContent :: "'c \<Rightarrow> string \<Rightarrow> thrown + 'o"
  createProgram :: "string list \<Rightarrow> 'o \<Rightarrow> thrown + 'p"
  getSemanticDiagnostics :: "'p \<Rightarrow> thrown + 'd list"
  getSyntacticDiagnostics :: "'p \<Rightarrow> thrown + 'd list"
  getGlobalDiagnostics :: "'p \<Rightarrow> thrown + 'd list"

text \<open>
  What happens during a run, as far as time is concerned: a reading of the clock
  (\<^verbatim>\<open>performance.now()\<close>) and the calls of the compiler, in the order in which they
  happen. A call is recorded whether it returns or throws.
\<close>

datatype compiler_call =
    Find_config
  | Read_config
  | Parse_config
  | Create_program
  | Semantic_diagnostics
  | Syntactic_diagnostics
  | Global_diagnostics

datatype probe_event = Clock_read | Compiler compiler_call

text \<open>
  Everything the Prober reads from outside. The file system and the compiler may answer
  differently from one invocation of the Prober to the next, so both are indexed by the
  number of invocations made before. The clock advances while the program runs: what
  \<^verbatim>\<open>performance.now()\<close> returns is \<open>now\<close> of what has happened before the call.
\<close>

record ('c, 'o, 'p, 'd) world =
  path_resolve :: "string \<Rightarrow> string"
  path_dirname :: "string \<Rightarrow> string"
  fs_existsSync :: "nat \<Rightarrow> string \<Rightarrow> bool"
  ts :: "nat \<Rightarrow> ('c, 'o, 'p, 'd) ts_api"
  now :: "probe_event list \<Rightarrow> real"

text \<open>
  The state threaded through a run: the invocations of the Prober so far, oldest first,
  each with the measurement it returned, and the readings of the clock and calls of the
  compiler so far, oldest first.
\<close>

record pstate =
  probes :: "(string \<times> TimingResult) list"
  timeline :: "probe_event list"

subsection \<open>measureTypeChecking\<close>

text \<open>
  The \<^verbatim>\<open>try\<close> block of \<^verbatim>\<open>measureTypeChecking\<close> (lines 31 to 71), entered after
  the events \<open>h\<close>. It yields the value returned or the value thrown, with the events
  up to that point. A missing configuration file is the \<^verbatim>\<open>throw new Error\<close> of
  line 39.
\<close>

definition try_block ::
  "('c, 'o, 'p, 'd) world \<Rightarrow> nat \<Rightarrow> string \<Rightarrow> string \<Rightarrow> real \<Rightarrow> probe_event list
     \<Rightarrow> (thrown + TimingResult) \<times> probe_event list" where
  "try_block w n fileName fullPath startTotal h =
     (let h1 = h @ [Compiler Find_config] in
      case findConfigFile (ts w n) of
        Inl e \<Rightarrow> (Inl e, h1)
      | Inr None \<Rightarrow> (Inl (Error_obj ''Could not find a valid 'tsconfig.json'.''), h1)
      | Inr (Some configPath) \<Rightarrow>
     (let h2 = h1 @ [Compiler Read_config] in
      case readConfigFile (ts w n) configPath of
        Inl e \<Rightarrow> (Inl e, h2)
      | Inr configFile \<Rightarrow>
     (let h3 = h2 @ [Compiler Parse_config] in
      case parseJsonConfigFileContent (ts w n) configFile (path_dirname w configPath) of
        Inl e \<Rightarrow> (Inl e, h3)
      | Inr compilerOptions \<Rightarrow>
     (let h4 = h3 @ [Compiler Create_program] in
      case createProgram (ts w n) [fullPath] compilerOptions of
        Inl e \<Rightarrow> (Inl e, h4)
      | Inr program \<Rightarrow>
     (let startTypeCheck = now w h4;
          h5 = h4 @ [Clock_read];
          h6 = h5 @ [Compiler Semantic_diagnostics] in
      case getSemanticDiagnostics (ts w n) program of
        Inl e \<Rightarrow> (Inl e, h6)
      | Inr semantic \<Rightarrow>
     (let h7 = h6 @ [Compiler Syntactic_diagnostics] in
      case getSyntacticDiagnostics (ts w n) program of
        Inl e \<Rightarrow> (Inl e, h7)
      | Inr syntactic \<Rightarrow>
     (let h8 = h7 @ [Compiler Global_diagnostics] in
      case getGlobalDiagnostics (ts w n) program of
        Inl e \<Rightarrow> (Inl e, h8)
      | Inr global \<Rightarrow>
     (let diagnostics = semantic @ syntactic @ global;
          endTypeCheck = now w h8;
          h9 = h8 @ [Clock_read];
          endTotal = now w h9;
          h10 = h9 @ [Clock_read]
      in (Inr \<lparr> file_name = fileName,
                typeCheckTime = endTypeCheck - startTypeCheck,
                totalTime = endTotal - startTotal,
                diagnosticsCount = length diagnostics,
                success = True,
                error = None \<rparr>, h10)))))))))"

text \<open>
  The whole function, without the bookkeeping of the invocations: the measurement
  returned and the events afterwards. The statements outside the \<^verbatim>\<open>try\<close> block
  (\<^verbatim>\<open>path.resolve\<close> of a string, \<^verbatim>\<open>fs.existsSync\<close>, \<^verbatim>\<open>performance.now\<close>) do not
  throw, and every path through the handler of lines 72 to 82 ends in \<^verbatim>\<open>return\<close>.
\<close>

definition measure_at ::
  "('c, 'o, 'p, 'd) world \<Rightarrow> nat \<Rightarrow> string \<Rightarrow> probe_event list
     \<Rightarrow> TimingResult \<times> probe_event list" where
  "measure_at w n fileName h =
     (let fullPath = path_resolve w fileName in
      if \<not> fs_existsSync w n fullPath then
        (\<lparr> file_name = fileName, typeCheckTime = 0, totalTime = 0, diagnosticsCount = 0,
           success = False, error = Some (''File not found: '' @ fullPath) \<rparr>, h)
      else
        (let startTotal = now w h in
         case try_block w n fileName fullPath startTotal (h @ [Clock_read]) of
           (Inr r, h') \<Rightarrow> (r, h')
         | (Inl e, h') \<Rightarrow>
             (let endTotal = now w h' in
              (\<lparr> file_name = fileName, typeCheckTime = 0, totalTime = endTotal - startTotal,
                 diagnosticsCount = 0, success = False,
                 error = Some (message_of e) \<rparr>, h' @ [Clock_read]))))"

text \<open>
  \<^verbatim>\<open>measureTypeChecking(fileName)\<close> in a run: the invocation is the one numbered by
  the invocations before it, and it is recorded with what it returned.
\<close>

definition measureTypeChecking ::
  "('c, 'o, 'p, 'd) world \<Rightarrow> string \<Rightarrow> pstate \<Rightarrow> TimingResult \<times> pstate" where
  "measureTypeChecking w fileName s =
     (let (r, h') = measure_at w (length (probes s)) fileName (timeline s)
      in (r, \<lparr> probes = probes s @ [(fileName, r)], timeline = h' \<rparr>))"

section \<open>The Benchmark Runner (measure-typechecking.ts)\<close>

subsection \<open>Numbers and the texts of the tables\<close>

text \<open>
  The arithmetic of the Runner is on JavaScript numbers. A time is a real number; a
  division or \<^verbatim>\<open>Math.min\<close> can also give \<^verbatim>\<open>NaN\<close> or an infinity, so the results of
  those are values of the type below. Zero is read as positive zero (no time of this
  program is negative zero).
\<close>

datatype number = Num real | NaN | PosInf | NegInf

fun js_div :: "number \<Rightarrow> number \<Rightarrow> number" where
  "js_div NaN b = NaN"
| "js_div a NaN = NaN"
| "js_div (Num a) (Num b) =
     (if b \<noteq> 0 then Num (a / b) else if a = 0 then NaN else if 0 < a then PosInf else NegInf)"
| "js_div (Num a) b = Num 0"
| "js_div PosInf (Num b) = (if 0 \<le> b then PosInf else NegInf)"
| "js_div NegInf (Num b) = (if 0 \<le> b then NegInf else PosInf)"
| "js_div a b = NaN"

fun js_sub :: "number \<Rightarrow> number \<Rightarrow> number" where
  "js_sub NaN b = NaN"
| "js_sub a NaN = NaN"
| "js_sub (Num a) (Num b) = Num (a - b)"
| "js_sub (Num a) PosInf = NegInf"
| "js_sub (Num a) NegInf = PosInf"
| "js_sub PosInf PosInf = NaN"
| "js_sub NegInf NegInf = NaN"
| "js_sub PosInf b = PosInf"
| "js_sub NegInf b = NegInf"

text \<open>\<^verbatim>\<open>a < b\<close>, \<^verbatim>\<open>a >= b\<close> and \<^verbatim>\<open>a === b\<close> on numbers: all false when one side is \<^verbatim>\<open>NaN\<close>.\<close>

fun js_less :: "number \<Rightarrow> number \<Rightarrow> bool" where
  "js_less NaN b = False"
| "js_less a NaN = False"
| "js_less (Num a) (Num b) = (a < b)"
| "js_less a NegInf = False"
| "js_less PosInf b = False"
| "js_less a b = True"

definition js_strict_eq :: "number \<Rightarrow> number \<Rightarrow> bool" where
  "js_strict_eq a b = (a \<noteq> NaN \<and> a = b)"

definition js_ge :: "number \<Rightarrow> number \<Rightarrow> bool" where
  "js_ge a b = (js_less b a \<or> js_strict_eq a b)"

text \<open>
  \<^verbatim>\<open>Math.min(...xs)\<close> and \<^verbatim>\<open>Math.max(...xs)\<close> of a list of times; without arguments
  they are the infinities.
\<close>

fun Math_min :: "real list \<Rightarrow> number" where
  "Math_min [] = PosInf"
| "Math_min (x # xs) = Num (fold min xs x)"

fun Math_max :: "real list \<Rightarrow> number" where
  "Math_max [] = NegInf"
| "Math_max (x # xs) = Num (fold max xs x)"

text \<open>
  The cells of the printed tables are strings: the literals \<^verbatim>\<open>"ERROR"\<close> and \<^verbatim>\<open>"-"\<close>,
  and what \<^verbatim>\<open>toFixed(2)\<close> prints. A text with two decimals is represented by its value
  in hundredths, so \<open>Fixed2 1235\<close> is \<^verbatim>\<open>"12.35"\<close>. \<^verbatim>\<open>toFixed(2)\<close> drops the sign,
  rounds the absolute value to the nearest hundredth, a tie upwards, and puts the sign
  back (times are far below \<open>10\<^sup>2\<^sup>1\<close>, where the notation would change);
  \<^verbatim>\<open>parseFloat\<close> reads the value back, and gives \<^verbatim>\<open>NaN\<close> for the two literals.
\<close>

datatype cell = ERROR | Dash | Fixed2 int | NaN_text | Infinity_text | Minus_Infinity_text

definition toFixed2 :: "real \<Rightarrow> int" where
  "toFixed2 x = (if x < 0 then - round (- x * 100) else round (x * 100))"

fun toFixed :: "number \<Rightarrow> cell" where
  "toFixed (Num x) = Fixed2 (toFixed2 x)"
| "toFixed NaN = NaN_text"
| "toFixed PosInf = Infinity_text"
| "toFixed NegInf = Minus_Infinity_text"

fun parseFloat :: "cell \<Rightarrow> number" where
  "parseFloat (Fixed2 n) = Num (real_of_int n / 100)"
| "parseFloat Infinity_text = PosInf"
| "parseFloat Minus_Infinity_text = NegInf"
| "parseFloat c = NaN"

subsection \<open>The record of results\<close>

text \<open>
  \<^verbatim>\<open>results: Record<string, TimingResult[]>\<close> is an object used as a dictionary. It is
  kept as the list of its properties in the order of their creation: an assignment to an
  existing key keeps the key's place. \<^verbatim>\<open>Object.entries\<close> lists the keys that are array
  indices first (canonical decimal numerals below \<open>2\<^sup>3\<^sup>2 - 1\<close>), in ascending numeric
  order, and then the other keys in the order of their creation.
\<close>

type_synonym 'v js_record = "(string \<times> 'v) list"

fun record_set :: "string \<Rightarrow> 'v \<Rightarrow> 'v js_record \<Rightarrow> 'v js_record" where
  "record_set k v [] = [(k, v)]"
| "record_set k v ((k', v') # r) =
     (if k' = k then (k, v) # r else (k', v') # record_set k v r)"

definition is_decimal_digit :: "char \<Rightarrow> bool" where
  "is_decimal_digit c = (48 \<le> (of_char c :: nat) \<and> (of_char c :: nat) \<le> 57)"

definition decimal_value :: "string \<Rightarrow> nat" where
  "decimal_value k = foldl (\<lambda>a c. 10 * a + (of_char c - 48)) 0 k"

definition is_array_index :: "string \<Rightarrow> bool" where
  "is_array_index k =
     (k \<noteq> [] \<and> list_all is_decimal_digit k \<and> (k = ''0'' \<or> hd k \<noteq> CHR ''0'') \<and>
      decimal_value k < 2 ^ 32 - 1)"

definition Object_entries :: "'v js_record \<Rightarrow> (string \<times> 'v) list" where
  "Object_entries r =
     sort_key (\<lambda>kv. decimal_value (fst kv)) (filter (\<lambda>kv. is_array_index (fst kv)) r) @
     filter (\<lambda>kv. \<not> is_array_index (fst kv)) r"

subsection \<open>runBenchmark: warm-up and measured phase\<close>

text \<open>Lines 94 to 96: every file is probed once and the result is dropped.\<close>

fun warm_up :: "('c, 'o, 'p, 'd) world \<Rightarrow> string list \<Rightarrow> pstate \<Rightarrow> pstate" where
  "warm_up w [] s = s"
| "warm_up w (file # files) s = warm_up w files (snd (measureTypeChecking w file s))"

text \<open>
  Lines 103 to 111, the loop \<^verbatim>\<open>for (let i = 0; i < iterations; i++)\<close> from the
  counter \<open>i\<close> on, with the measurements pushed so far: each result is pushed, and a
  failed one ends the loop (\<^verbatim>\<open>break\<close>) after it has been pushed.
\<close>

function measure_iterations ::
  "('c, 'o, 'p, 'd) world \<Rightarrow> string \<Rightarrow> int \<Rightarrow> int \<Rightarrow> TimingResult list \<Rightarrow> pstate
     \<Rightarrow> TimingResult list \<times> pstate" where
  "measure_iterations w file iterations i pushed s =
     (if i < iterations then
        (let rs = measureTypeChecking w file s;
             pushed' = pushed @ [fst rs]
         in if \<not> success (fst rs) then (pushed', snd rs)
            else measure_iterations w file iterations (i + 1) pushed' (snd rs))
      else (pushed, s))"
  by pat_completeness auto
termination
  by (relation "measure (\<lambda>(w, file, iterations, i, pushed, s). nat (iterations - i))") auto

text \<open>
  Lines 99 to 112: for each file, \<^verbatim>\<open>results[file] = []\<close> and then the loop above, whose
  pushes end up in \<^verbatim>\<open>results[file]\<close>.
\<close>

fun measure_files ::
  "('c, 'o, 'p, 'd) world \<Rightarrow> string list \<Rightarrow> int \<Rightarrow> TimingResult list js_record \<Rightarrow> pstate
     \<Rightarrow> TimingResult list js_record \<times> pstate" where
  "measure_files w [] iterations results s = (results, s)"
| "measure_files w (file # files) iterations results s =
     (let results0 = record_set file [] results;
          ms = measure_iterations w file iterations 0 [] s
      in measure_files w files iterations (record_set file (fst ms) results0) (snd ms))"

subsection \<open>runBenchmark: the summary table\<close>

record summary_row =
  File :: string
  Avg_Type_Check_ms :: cell
  Min_ms :: cell
  Max_ms :: cell
  Diagnostics :: nat

text \<open>The body of the loop of lines 127 to 153, for one entry of \<^verbatim>\<open>results\<close>.\<close>

definition summary_row_of :: "string \<times> TimingResult list \<Rightarrow> summary_row" where
  "summary_row_of entry =
     (let file = fst entry; fileResults = snd entry in
      if length fileResults = 0 \<or> \<not> success (fileResults ! 0) then
        \<lparr> File = file, Avg_Type_Check_ms = ERROR, Min_ms = Dash, Max_ms = Dash,
          Diagnostics = 0 \<rparr>
      else
        (let typeCheckTimes = map typeCheckTime fileResults;
             avg = js_div (Num (foldl (+) 0 typeCheckTimes))
                          (Num (real (length typeCheckTimes)));
             min = Math_min typeCheckTimes;
             max = Math_max typeCheckTimes;
             diagnostics = diagnosticsCount (fileResults ! 0)
         in \<lparr> File = file, Avg_Type_Check_ms = toFixed avg, Min_ms = toFixed min,
              Max_ms = toFixed max, Diagnostics = diagnostics \<rparr>))"

subsection \<open>runBenchmark: the comparison table\<close>

datatype relative_speed = BASELINE | X_slower cell

text \<open>
  The text of \<^verbatim>\<open>"Absolute Diff (ms)"\<close> is \<^verbatim>\<open>"+"\<close> or nothing, followed by
  \<^verbatim>\<open>diff.toFixed(2)\<close>: a pair of the flag and the cell. \<^verbatim>\<open>parseFloat\<close> of it is the
  value of the cell, since a leading plus sign does not change what is read.
\<close>

record comparison_row =
  cmp_File :: string
  Relative_Speed :: relative_speed
  Absolute_Diff_ms :: "bool \<times> cell"

text \<open>
  \<^verbatim>\<open>xs.reduce(f)\<close> without an initial value: a \<^verbatim>\<open>TypeError\<close> on the empty array,
  otherwise the fold from the first element over the rest.
\<close>

fun reduce :: "('a \<Rightarrow> 'a \<Rightarrow> 'a) \<Rightarrow> 'a list \<Rightarrow> thrown + 'a" where
  "reduce f [] = Inl (Error_obj ''Reduce of empty array with no initial value'')"
| "reduce f (x # xs) = Inr (foldl f x xs)"

text \<open>
  \<^verbatim>\<open>xs.sort(cmp)\<close> is stable: an element goes behind the elements it compares greater
  than (\<^verbatim>\<open>cmp(a, b) > 0\<close>) and stays before the others it met.
\<close>

fun sort_insert :: "('a \<Rightarrow> 'a \<Rightarrow> number) \<Rightarrow> 'a \<Rightarrow> 'a list \<Rightarrow> 'a list" where
  "sort_insert cmp x [] = [x]"
| "sort_insert cmp x (y # ys) =
     (if js_less (Num 0) (cmp x y) then y # sort_insert cmp x ys else x # y # ys)"

definition js_sort :: "('a \<Rightarrow> 'a \<Rightarrow> number) \<Rightarrow> 'a list \<Rightarrow> 'a list" where
  "js_sort cmp xs = foldr (sort_insert cmp) xs []"

definition comparison_row_of :: "number \<Rightarrow> summary_row \<Rightarrow> comparison_row" where
  "comparison_row_of fastestTime data =
     (let avgTime = parseFloat (Avg_Type_Check_ms data);
          ratio = js_div avgTime fastestTime;
          diff = js_sub avgTime fastestTime
      in \<lparr> cmp_File = File data,
           Relative_Speed =
             (if js_strict_eq ratio (Num 1) then BASELINE else X_slower (toFixed ratio)),
           Absolute_Diff_ms = (js_ge diff (Num 0), toFixed diff) \<rparr>)"

text \<open>Lines 163 to 195.\<close>

definition comparison :: "summary_row list \<Rightarrow> thrown + comparison_row list" where
  "comparison summaryData =
     (let validData = filter (\<lambda>d. Avg_Type_Check_ms d \<noteq> ERROR) summaryData in
      case reduce (\<lambda>a b. if js_less (parseFloat (Avg_Type_Check_ms a))
                                    (parseFloat (Avg_Type_Check_ms b)) then a else b)
             validData of
        Inl e \<Rightarrow> Inl e
      | Inr fastest \<Rightarrow>
          (let fastestTime = parseFloat (Avg_Type_Check_ms fastest) in
           Inr (js_sort (\<lambda>a b. js_sub (parseFloat (snd (Absolute_Diff_ms a)))
                                      (parseFloat (snd (Absolute_Diff_ms b))))
                  (map (comparison_row_of fastestTime) validData))))"

subsection \<open>runBenchmark\<close>

text \<open>
  What a run of \<^verbatim>\<open>runBenchmark\<close> leaves: the summary table, which is always printed
  (line 155), and how the run ended: by an uncaught exception, or normally without or
  with a comparison table (line 197). The lines of plain text that the run prints are
  left out.
\<close>

record report =
  summary_table :: "summary_row list"
  finished :: "thrown + comparison_row list option"

definition runBenchmark ::
  "('c, 'o, 'p, 'd) world \<Rightarrow> string list \<Rightarrow> int \<Rightarrow> pstate \<Rightarrow> report \<times> pstate" where
  "runBenchmark w files iterations s =
     (let s1 = warm_up w files s;
          m = measure_files w files iterations [] s1;
          summaryData = map summary_row_of (Object_entries (fst m))
      in (\<lparr> summary_table = summaryData,
            finished =
              (if length summaryData > 1 then
                 (case comparison summaryData of
                    Inl e \<Rightarrow> Inl e
                  | Inr comparisonData \<Rightarrow> Inr (Some comparisonData))
               else Inr None) \<rparr>, snd m))"

subsection \<open>main\<close>

text \<open>
  \<^verbatim>\<open>parseInt(string)\<close> without a radix: leading white space is dropped, then a sign,
  then \<^verbatim>\<open>0x\<close> or \<^verbatim>\<open>0X\<close> (which makes the radix 16); the longest run of digits of the
  radix is the numeral, and no digit at all gives \<^verbatim>\<open>NaN\<close>, here \<open>None\<close>. The result
  is an integer, unbounded here (a double is exact up to \<open>2\<^sup>5\<^sup>3\<close>); the white space is
  that of ASCII.
\<close>

definition is_white_space :: "char \<Rightarrow> bool" where
  "is_white_space c = ((of_char c :: nat) \<in> {9, 10, 11, 12, 13, 32})"

definition digit_value :: "char \<Rightarrow> nat option" where
  "digit_value c =
     (let n = (of_char c :: nat) in
      if 48 \<le> n \<and> n \<le> 57 then Some (n - 48)
      else if 97 \<le> n \<and> n \<le> 122 then Some (n - 87)
      else if 65 \<le> n \<and> n \<le> 90 then Some (n - 55)
      else None)"

definition is_radix_digit :: "nat \<Rightarrow> char \<Rightarrow> bool" where
  "is_radix_digit R c = (case digit_value c of None \<Rightarrow> False | Some d \<Rightarrow> d < R)"

definition numeral_value :: "nat \<Rightarrow> string \<Rightarrow> nat" where
  "numeral_value R Z = foldl (\<lambda>a c. a * R + (case digit_value c of None \<Rightarrow> 0 | Some d \<Rightarrow> d)) 0 Z"

definition parseInt :: "string \<Rightarrow> int option" where
  "parseInt inputString =
     (let S = dropWhile is_white_space inputString;
          sign = (if S \<noteq> [] \<and> hd S = CHR ''-'' then - 1 else 1 :: int);
          S1 = (if S \<noteq> [] \<and> (hd S = CHR ''+'' \<or> hd S = CHR ''-'') then tl S else S);
          hex = (take 2 S1 = ''0x'' \<or> take 2 S1 = ''0X'');
          R = (if hex then 16 else 10);
          S2 = (if hex then drop 2 S1 else S1);
          Z = takeWhile (is_radix_digit R) S2
      in if Z = [] then None else Some (sign * int (numeral_value R Z)))"

text \<open>\<^verbatim>\<open>s.split("=")\<close>: the pieces of \<open>s\<close> between the occurrences of the separator.\<close>

fun split :: "char \<Rightarrow> string \<Rightarrow> string list" where
  "split sep [] = [[]]"
| "split sep (c # cs) =
     (if c = sep then [] # split sep cs
      else (case split sep cs of piece # pieces \<Rightarrow> (c # piece) # pieces | [] \<Rightarrow> [[c]]))"

text \<open>
  \<^verbatim>\<open>parseInt(iterArg.split("=")[1]) || 5\<close>: a missing second piece is \<^verbatim>\<open>undefined\<close>,
  which \<^verbatim>\<open>parseInt\<close> reads as \<^verbatim>\<open>NaN\<close>; \<^verbatim>\<open>NaN\<close> and zero are falsy.
\<close>

definition iterations_of :: "string \<Rightarrow> int" where
  "iterations_of iterArg =
     (case (case split CHR ''='' iterArg of _ # v # _ \<Rightarrow> parseInt v | _ \<Rightarrow> None) of
        None \<Rightarrow> 5
      | Some n \<Rightarrow> if n = 0 then 5 else n)"

text \<open>
  \<^verbatim>\<open>main\<close> applied to \<^verbatim>\<open>process.argv.slice(2)\<close>: it prints the usage and ends the
  process with \<^verbatim>\<open>process.exit(1)\<close>, or it runs the benchmark.
\<close>

datatype main_result = Usage_exit "string list" nat | Benchmark report

definition usage :: "string list" where
  "usage =
     [''Usage: node measure-typechecking.ts <file1> [file2] [file3] ...'',
      [CHR 0x0A] @ ''Example:'',
      ''  node measure-typechecking.ts prisma.query.bench.ts drizzle.query.bench.ts drizzle.relational.bench.ts'']"

definition main ::
  "('c, 'o, 'p, 'd) world \<Rightarrow> string list \<Rightarrow> pstate \<Rightarrow> main_result \<times> pstate" where
  "main w args s =
     (if length args = 0 then (Usage_exit usage 1, s)
      else
        (let iterArg = find (\<lambda>arg. prefix ''--iterations='' arg) args;
             iterations = (case iterArg of None \<Rightarrow> 5 | Some a \<Rightarrow> iterations_of a);
             files = (case iterArg of None \<Rightarrow> args
                      | Some a \<Rightarrow> filter (\<lambda>arg. \<not> prefix ''--iterations='' arg) args);
             run = runBenchmark w files iterations s
         in (Benchmark (fst run), snd run)))"

section \<open>The Batch Orchestrator (test.ts)\<close>

text \<open>
  What the script reads from outside: whether the generation subprocess succeeds, the
  listing of the benchmark directory, whether an entry of it is a regular file, and the
  exit code of \<^verbatim>\<open>node benchFile\<close> under the value given to
  \<^verbatim>\<open>ATTEST_updateSnapshots\<close>. The promise of \<^verbatim>\<open>execa\<close> is rejected when the
  subprocess fails, which is taken to be an exit code other than zero.
\<close>

record test_world =
  generate :: "thrown + unit"
  readdir :: "thrown + string list"
  stat_isFile :: "string \<Rightarrow> thrown + bool"
  node_exit :: "string \<Rightarrow> bool \<Rightarrow> nat"

record test_result =
  test :: string
  test_success :: bool
  skipped :: "bool option"

text \<open>The subprocesses spawned, the accesses to the file system and the final table, in order.\<close>

datatype event =
    Spawn_generate
  | Read_dir
  | Stat string
  | Spawn_node string bool
  | Print_results "test_result list" bool

datatype outcome = Exit nat | Uncaught thrown

definition shouldUpdateSnapshots :: "string list \<Rightarrow> bool" where
  "shouldUpdateSnapshots args = (''-u'' \<in> set args \<or> ''--updateSnapshots'' \<in> set args)"

definition getGenerateOptions :: "string list \<Rightarrow> thrown + bool \<times> bool" where
  "getGenerateOptions args =
     (let shouldOnlyGenerate = (''--onlyGenerate'' \<in> set args);
          shouldSkipGenerate = (''--skipGenerate'' \<in> set args)
      in if shouldOnlyGenerate \<and> shouldSkipGenerate then
           Inl (Error_obj ''Cannot run generate and skip generate at the same time'')
         else Inr (shouldOnlyGenerate, shouldSkipGenerate))"

definition getTestFilter :: "string list \<Rightarrow> string option" where
  "getTestFilter args = find (\<lambda>arg. \<not> prefix ''-'' arg) args"

text \<open>The loop of \<^verbatim>\<open>getBenchmarkFiles\<close> over the listing, with the files kept so far.\<close>

fun keep_bench_files ::
  "test_world \<Rightarrow> string list \<Rightarrow> string list \<Rightarrow> (thrown + string list) \<times> event list" where
  "keep_bench_files w [] benchmarkFiles = (Inr benchmarkFiles, [])"
| "keep_bench_files w (item # items) benchmarkFiles =
     (case stat_isFile w item of
        Inl e \<Rightarrow> (Inl e, [Stat item])
      | Inr isFile \<Rightarrow>
          (let rest = keep_bench_files w items
                        (if isFile \<and> suffix ''.bench.ts'' item then benchmarkFiles @ [item]
                         else benchmarkFiles)
           in (fst rest, Stat item # snd rest)))"

definition getBenchmarkFiles :: "test_world \<Rightarrow> (thrown + string list) \<times> event list" where
  "getBenchmarkFiles w =
     (case readdir w of
        Inl e \<Rightarrow> (Inl e, [Read_dir])
      | Inr items \<Rightarrow>
          (let kept = keep_bench_files w items [] in (fst kept, Read_dir # snd kept)))"

definition runGenerate :: "test_world \<Rightarrow> (thrown + unit) \<times> event list" where
  "runGenerate w = (generate w, [Spawn_generate])"

text \<open>
  \<^verbatim>\<open>runBenchmark\<close> of test.ts: the result for the file and the new value of the
  variable \<^verbatim>\<open>hasAnyFailure\<close>, which the handler sets.
\<close>

definition runBenchmark_test ::
  "test_world \<Rightarrow> string \<Rightarrow> bool \<Rightarrow> bool \<Rightarrow> test_result \<times> bool \<times> event list" where
  "runBenchmark_test w benchFile updateSnapshots hasAnyFailure =
     (if node_exit w benchFile updateSnapshots = 0 then
        (\<lparr> test = benchFile, test_success = True, skipped = None \<rparr>, hasAnyFailure,
         [Spawn_node benchFile updateSnapshots])
      else
        (\<lparr> test = benchFile, test_success = False, skipped = None \<rparr>, True,
         [Spawn_node benchFile updateSnapshots]))"

text \<open>
  The condition of line 29, \<^verbatim>\<open>testFilter && !benchFile.includes(testFilter)\<close>: the
  filter is there, it is not the empty string (which is falsy), and the name of the file
  does not contain it.
\<close>

definition is_skipped :: "string option \<Rightarrow> string \<Rightarrow> bool" where
  "is_skipped testFilter benchFile =
     (case testFilter of None \<Rightarrow> False | Some f \<Rightarrow> f \<noteq> [] \<and> \<not> sublist f benchFile)"

text \<open>
  The loop of lines 28 to 41 over the files left, with the results pushed so far and the
  value of \<^verbatim>\<open>hasAnyFailure\<close>.
\<close>

fun run_files ::
  "test_world \<Rightarrow> string option \<Rightarrow> bool \<Rightarrow> string list \<Rightarrow> test_result list \<Rightarrow> bool
     \<Rightarrow> test_result list \<times> bool \<times> event list" where
  "run_files w testFilter updateSnapshots [] results hasAnyFailure =
     (results, hasAnyFailure, [])"
| "run_files w testFilter updateSnapshots (benchFile # benchFiles) results hasAnyFailure =
     (if is_skipped testFilter benchFile then
        run_files w testFilter updateSnapshots benchFiles
          (results @ [\<lparr> test = benchFile, test_success = False, skipped = Some True \<rparr>])
          hasAnyFailure
      else
        (case runBenchmark_test w benchFile updateSnapshots hasAnyFailure of
           (result, hasAnyFailure', evs) \<Rightarrow>
             (case run_files w testFilter updateSnapshots benchFiles (results @ [result])
                     hasAnyFailure' of
                (results', failed, evs') \<Rightarrow> (results', failed, evs @ evs'))))"

text \<open>The script, lines 6 to 45, applied to \<^verbatim>\<open>process.argv.slice(2)\<close>.\<close>

definition test_script :: "test_world \<Rightarrow> string list \<Rightarrow> outcome \<times> event list" where
  "test_script w args =
     (let updateSnapshots = shouldUpdateSnapshots args in
      case getGenerateOptions args of
        Inl e \<Rightarrow> (Uncaught e, [])
      | Inr (shouldOnlyGenerate, shouldSkipGenerate) \<Rightarrow>
          (let testFilter = getTestFilter args;
               gen = (if \<not> shouldSkipGenerate then runGenerate w else (Inr (), []))
           in case fst gen of
                Inl e \<Rightarrow> (Uncaught e, snd gen)
              | Inr _ \<Rightarrow>
                  if shouldOnlyGenerate then (Exit 0, snd gen)
                  else
                    (case getBenchmarkFiles w of
                       (Inl e, evs) \<Rightarrow> (Uncaught e, snd gen @ evs)
                     | (Inr benchFiles, evs) \<Rightarrow>
                         (case run_files w testFilter updateSnapshots benchFiles [] False of
                            (results, hasAnyFailure, evs') \<Rightarrow>
                              (Exit (if hasAnyFailure then 1 else 0),
                               snd gen @ evs @ evs' @
                                 [Print_results results updateSnapshots])))))"

section \<open>Statements about the Runner\<close>

text \<open>
  What the loop of lines 103 to 111 guarantees about the measurements \<open>b\<close> it pushes
  for one file when it is asked for \<open>n\<close> iterations: there are at most \<open>n\<close>, all
  but the last one succeeded, and fewer than \<open>n\<close> only when the last one failed.
\<close>

definition fail_fast :: "int \<Rightarrow> TimingResult list \<Rightarrow> bool" where
  "fail_fast n b \<longleftrightarrow>
     length b \<le> nat n \<and> (\<forall>j. Suc j < length b \<longrightarrow> success (b ! j)) \<and>
     (length b < nat n \<longrightarrow> b \<noteq> [] \<and> \<not> success (last b))"

text \<open>
  The summary row as the specification words it, to be compared with \<open>summary_row_of\<close>:
  average, minimum and maximum of \<open>typeCheckTime\<close> over the successful iterations only,
  and the diagnostic count of the first iteration.
\<close>

definition summary_row_claimed :: "string \<times> TimingResult list \<Rightarrow> summary_row" where
  "summary_row_claimed entry =
     (let successful = filter success (snd entry);
          typeCheckTimes = map typeCheckTime successful
      in \<lparr> File = fst entry,
           Avg_Type_Check_ms =
             toFixed (js_div (Num (foldl (+) 0 typeCheckTimes))
                             (Num (real (length typeCheckTimes)))),
           Min_ms = toFixed (Math_min typeCheckTimes),
           Max_ms = toFixed (Math_max typeCheckTimes),
           Diagnostics = diagnosticsCount (snd entry ! 0) \<rparr>)"

text \<open>
  The value in hundredths of the average printed in a summary row, and of the difference
  printed in a row of the comparison table (0 where the cell is not such a text).
\<close>

definition avg_hundredths :: "summary_row \<Rightarrow> int" where
  "avg_hundredths d = (case Avg_Type_Check_ms d of Fixed2 n \<Rightarrow> n | _ \<Rightarrow> 0)"

definition diff_hundredths :: "comparison_row \<Rightarrow> int" where
  "diff_hundredths r = (case snd (Absolute_Diff_ms r) of Fixed2 n \<Rightarrow> n | _ \<Rightarrow> 0)"

section \<open>Example environments\<close>

text \<open>
  Concrete environments on which the functions above are evaluated. In all of them a path
  resolves against \<^verbatim>\<open>/repo/\<close>, and the compiler finds its configuration and reports
  one semantic diagnostic. Except in \<open>timed_world\<close>, the clock advances by 10
  milliseconds from one reading to the next.
\<close>

definition ok_ts :: "(unit, unit, unit, unit) ts_api" where
  "ok_ts =
     \<lparr> findConfigFile = Inr (Some ''/repo/tsconfig.json''),
       readConfigFile = (\<lambda>p. Inr ()),
       parseJsonConfigFileContent = (\<lambda>c d. Inr ()),
       createProgram = (\<lambda>fs opts. Inr ()),
       getSemanticDiagnostics = (\<lambda>p. Inr [()]),
       getSyntacticDiagnostics = (\<lambda>p. Inr []),
       getGlobalDiagnostics = (\<lambda>p. Inr []) \<rparr>"

text \<open>Every file exists and every call of the compiler returns.\<close>

definition ok_world :: "(unit, unit, unit, unit) world" where
  "ok_world =
     \<lparr> path_resolve = (\<lambda>p. ''/repo/'' @ p), path_dirname = (\<lambda>p. ''/repo''),
       fs_existsSync = (\<lambda>n p. True), ts = (\<lambda>n. ok_ts),
       now = (\<lambda>h. 10 * real (length (filter (\<lambda>ev. ev = Clock_read) h))) \<rparr>"

text \<open>No file exists.\<close>

definition missing_world :: "(unit, unit, unit, unit) world" where
  "missing_world = ok_world \<lparr> fs_existsSync := (\<lambda>n p. False) \<rparr>"

text \<open>The files exist, and no configuration file is found.\<close>

definition no_config_world :: "(unit, unit, unit, unit) world" where
  "no_config_world = ok_world \<lparr> ts := (\<lambda>n. ok_ts \<lparr> findConfigFile := Inr None \<rparr>) \<rparr>"

text \<open>
  The files exist during the first two invocations of the Prober and are gone afterwards
  (deleted while the benchmark runs).
\<close>

definition vanishing_world :: "(unit, unit, unit, unit) world" where
  "vanishing_world = ok_world \<lparr> fs_existsSync := (\<lambda>n p. n < 2) \<rparr>"

text \<open>
  The files exist except at the fourth invocation of the Prober (a file that is replaced
  while the benchmark runs).
\<close>

definition glitch_world :: "(unit, unit, unit, unit) world" where
  "glitch_world = ok_world \<lparr> fs_existsSync := (\<lambda>n p. n \<noteq> 3) \<rparr>"

text \<open>The files exist, and the construction of the program throws an error.\<close>

definition create_throws_world :: "(unit, unit, unit, unit) world" where
  "create_throws_world =
     ok_world \<lparr> ts := (\<lambda>n. ok_ts \<lparr> createProgram := (\<lambda>fs opts. Inl (Error_obj ''boom'')) \<rparr>) \<rparr>"

text \<open>
  The files exist, and the collection of the global diagnostics throws a value that is
  not an error object.
\<close>

definition diagnostics_throw_world :: "(unit, unit, unit, unit) world" where
  "diagnostics_throw_world =
     ok_world \<lparr> ts := (\<lambda>n. ok_ts \<lparr> getGlobalDiagnostics :=
                                      (\<lambda>p. Inl (Thrown_value ''out of memory'')) \<rparr>) \<rparr>"

text \<open>
  Every file exists, every call of the compiler returns, and time passes during the calls
  of the compiler: the clock shows the sum of the durations of what has happened.
\<close>

fun duration :: "probe_event \<Rightarrow> real" where
  "duration Clock_read = 0"
| "duration (Compiler Find_config) = 2"
| "duration (Compiler Read_config) = 1"
| "duration (Compiler Parse_config) = 3"
| "duration (Compiler Create_program) = 40"
| "duration (Compiler Semantic_diagnostics) = 100"
| "duration (Compiler Syntactic_diagnostics) = 5"
| "duration (Compiler Global_diagnostics) = 1"

definition timed_world :: "(unit, unit, unit, unit) world" where
  "timed_world = ok_world \<lparr> now := (\<lambda>h. sum_list (map duration h)) \<rparr>"

definition s0 :: pstate where
  "s0 = \<lparr> probes = [], timeline = [] \<rparr>"

text \<open>The two measurements that the Prober returns in these environments.\<close>

definition ok_measurement :: "string \<Rightarrow> TimingResult" where
  "ok_measurement f =
     \<lparr> file_name = f, typeCheckTime = 10, totalTime = 30, diagnosticsCount = 1,
       success = True, error = None \<rparr>"

definition missing_measurement :: "string \<Rightarrow> TimingResult" where
  "missing_measurement f =
     \<lparr> file_name = f, typeCheckTime = 0, totalTime = 0, diagnosticsCount = 0,
       success = False, error = Some (''File not found: /repo/'' @ f) \<rparr>"

text \<open>
  A benchmark directory with two fixtures and one other file, where generation succeeds,
  \<^verbatim>\<open>a.bench.ts\<close> exits with 0 and \<^verbatim>\<open>b.bench.ts\<close> exits with 1.
\<close>

definition two_fixtures :: test_world where
  "two_fixtures =
     \<lparr> generate = Inr (),
       readdir = Inr [''a.bench.ts'', ''b.bench.ts'', ''benchmark.md''],
       stat_isFile = (\<lambda>item. Inr True),
       node_exit = (\<lambda>benchFile updateSnapshots. if benchFile = ''b.bench.ts'' then 1 else 0) \<rparr>"

section \<open>Properties of the Prober\<close>

lemma try_block_history:
  "try_block w n fileName fullPath startTotal h = (res, h') \<Longrightarrow> prefix h h'"
  by (auto simp: try_block_def Let_def split: sum.splits option.splits)

lemma try_block_success:
  "try_block w n fileName fullPath startTotal h = (Inr r, h') \<Longrightarrow>
   success r \<and> error r = None \<and> file_name r = fileName \<and>
   h' = h @ [Compiler Find_config, Compiler Read_config, Compiler Parse_config,
             Compiler Create_program, Clock_read, Compiler Semantic_diagnostics,
             Compiler Syntactic_diagnostics, Compiler Global_diagnostics, Clock_read,
             Clock_read] \<and>
   typeCheckTime r =
     now w (h @ [Compiler Find_config, Compiler Read_config, Compiler Parse_config,
                 Compiler Create_program, Clock_read, Compiler Semantic_diagnostics,
                 Compiler Syntactic_diagnostics, Compiler Global_diagnostics])
     - now w (h @ [Compiler Find_config, Compiler Read_config, Compiler Parse_config,
                   Compiler Create_program]) \<and>
   totalTime r =
     now w (h @ [Compiler Find_config, Compiler Read_config, Compiler Parse_config,
                 Compiler Create_program, Clock_read, Compiler Semantic_diagnostics,
                 Compiler Syntactic_diagnostics, Compiler Global_diagnostics, Clock_read])
     - startTotal"
  by (auto simp: try_block_def Let_def split: sum.splits option.splits)

lemma try_block_no_config:
  "findConfigFile (ts w n) = Inr None \<Longrightarrow>
   try_block w n fileName fullPath startTotal h =
     (Inl (Error_obj ''Could not find a valid 'tsconfig.json'.''), h @ [Compiler Find_config])"
  by (simp add: try_block_def)

text \<open>
  The \<^verbatim>\<open>try\<close> block ends by a \<^verbatim>\<open>throw\<close> of \<open>e\<close> exactly when one of the seven
  calls of the compiler throws \<open>e\<close> after the calls before it have returned, or when no
  configuration file is found and \<open>e\<close> is the error of line 39.
\<close>

lemma try_block_raises_iff:
  "(\<exists>h'. try_block w n fileName fullPath startTotal h = (Inl e, h')) \<longleftrightarrow>
     findConfigFile (ts w n) = Inl e \<or>
     findConfigFile (ts w n) = Inr None \<and>
       e = Error_obj ''Could not find a valid 'tsconfig.json'.'' \<or>
     (\<exists>configPath. findConfigFile (ts w n) = Inr (Some configPath) \<and>
        (readConfigFile (ts w n) configPath = Inl e \<or>
         (\<exists>configFile. readConfigFile (ts w n) configPath = Inr configFile \<and>
            (parseJsonConfigFileContent (ts w n) configFile (path_dirname w configPath) = Inl e \<or>
             (\<exists>compilerOptions.
                parseJsonConfigFileContent (ts w n) configFile (path_dirname w configPath)
                  = Inr compilerOptions \<and>
                (createProgram (ts w n) [fullPath] compilerOptions = Inl e \<or>
                 (\<exists>program. createProgram (ts w n) [fullPath] compilerOptions = Inr program \<and>
                    (getSemanticDiagnostics (ts w n) program = Inl e \<or>
                     (\<exists>semantic. getSemanticDiagnostics (ts w n) program = Inr semantic) \<and>
                     (getSyntacticDiagnostics (ts w n) program = Inl e \<or>
                      (\<exists>syntactic. getSyntacticDiagnostics (ts w n) program = Inr syntactic) \<and>
                      getGlobalDiagnostics (ts w n) program = Inl e)))))))))"
  by (auto simp: try_block_def Let_def split: sum.splits option.splits)

lemma measure_at_missing:
  "\<not> fs_existsSync w n (path_resolve w fileName) \<Longrightarrow>
   measure_at w n fileName h =
     (\<lparr> file_name = fileName, typeCheckTime = 0, totalTime = 0, diagnosticsCount = 0,
        success = False, error = Some (''File not found: '' @ path_resolve w fileName) \<rparr>, h)"
  by (simp add: measure_at_def)

lemma measure_at_caught:
  "fs_existsSync w n (path_resolve w fileName) \<Longrightarrow>
   try_block w n fileName (path_resolve w fileName) (now w h) (h @ [Clock_read]) = (Inl e, h') \<Longrightarrow>
   measure_at w n fileName h =
     (\<lparr> file_name = fileName, typeCheckTime = 0, totalTime = now w h' - now w h,
        diagnosticsCount = 0, success = False, error = Some (message_of e) \<rparr>,
      h' @ [Clock_read])"
  by (simp add: measure_at_def)

lemma measure_at_returned:
  "fs_existsSync w n (path_resolve w fileName) \<Longrightarrow>
   try_block w n fileName (path_resolve w fileName) (now w h) (h @ [Clock_read]) = (Inr r, h') \<Longrightarrow>
   measure_at w n fileName h = (r, h')"
  by (simp add: measure_at_def)

lemma measureTypeChecking_fst:
  "fst (measureTypeChecking w fileName s) =
     fst (measure_at w (length (probes s)) fileName (timeline s))"
  by (simp add: measureTypeChecking_def split: prod.splits)

lemma measureTypeChecking_timeline:
  "timeline (snd (measureTypeChecking w fileName s)) =
     snd (measure_at w (length (probes s)) fileName (timeline s))"
  by (simp add: measureTypeChecking_def split: prod.splits)

lemma measureTypeChecking_probes:
  "probes (snd (measureTypeChecking w fileName s)) =
     probes s @ [(fileName, fst (measureTypeChecking w fileName s))]"
  by (simp add: measureTypeChecking_def split: prod.splits)

lemmas worlds =
  ok_world_def ok_ts_def missing_world_def no_config_world_def vanishing_world_def
  glitch_world_def create_throws_world_def diagnostics_throw_world_def timed_world_def s0_def

text \<open>
  Claim C5. When the resolved path of the file does not exist, the Prober returns a
  measurement: \<open>success\<close> is false, both times are zero, and the error message is
  \<^verbatim>\<open>File not found: \<close> followed by the resolved path, hence not empty and naming the
  missing path.
\<close>

theorem measureTypeChecking_missing_file:
  assumes "\<not> fs_existsSync w (length (probes s)) (path_resolve w fileName)"
  shows "fst (measureTypeChecking w fileName s) =
           \<lparr> file_name = fileName, typeCheckTime = 0, totalTime = 0, diagnosticsCount = 0,
             success = False,
             error = Some (''File not found: '' @ path_resolve w fileName) \<rparr> \<and>
         ''File not found: '' @ path_resolve w fileName \<noteq> [] \<and>
         suffix (path_resolve w fileName) (''File not found: '' @ path_resolve w fileName)"
  using assms by (simp add: measureTypeChecking_fst measure_at_missing suffix_def)

theorem measureTypeChecking_missing_file_witness:
  "\<not> fs_existsSync missing_world 0 (path_resolve missing_world ''a.ts'') \<and>
   fst (measureTypeChecking missing_world ''a.ts'' s0) =
     \<lparr> file_name = ''a.ts'', typeCheckTime = 0, totalTime = 0, diagnosticsCount = 0,
       success = False, error = Some ''File not found: /repo/a.ts'' \<rparr>"
  using measureTypeChecking_missing_file [of missing_world s0 "''a.ts''"]
  by (simp add: worlds)

text \<open>
  Claim C6. Let the file exist, and let \<open>e\<close> be thrown during the probe: by the lookup
  of the configuration file, or as the error of line 39 because no configuration file is
  found, or, the calls before it having returned, by the reading or the parsing of the
  configuration, by the construction of the program, or by the collection of the
  semantic, syntactic or global diagnostics. Then the Prober returns a measurement: its
  \<open>success\<close> is false, its \<open>error\<close> is the message of \<open>e\<close>, and its
  \<open>typeCheckTime\<close> and diagnostic count are zero.
\<close>

theorem measureTypeChecking_catches:
  assumes "fs_existsSync w (length (probes s)) (path_resolve w fileName)"
    and "findConfigFile (ts w (length (probes s))) = Inl e \<or>
     findConfigFile (ts w (length (probes s))) = Inr None \<and>
       e = Error_obj ''Could not find a valid 'tsconfig.json'.'' \<or>
     (\<exists>configPath. findConfigFile (ts w (length (probes s))) = Inr (Some configPath) \<and>
        (readConfigFile (ts w (length (probes s))) configPath = Inl e \<or>
         (\<exists>configFile. readConfigFile (ts w (length (probes s))) configPath = Inr configFile \<and>
            (parseJsonConfigFileContent (ts w (length (probes s))) configFile
               (path_dirname w configPath) = Inl e \<or>
             (\<exists>compilerOptions.
                parseJsonConfigFileContent (ts w (length (probes s))) configFile
                  (path_dirname w configPath) = Inr compilerOptions \<and>
                (createProgram (ts w (length (probes s))) [path_resolve w fileName]
                   compilerOptions = Inl e \<or>
                 (\<exists>program.
                    createProgram (ts w (length (probes s))) [path_resolve w fileName]
                      compilerOptions = Inr program \<and>
                    (getSemanticDiagnostics (ts w (length (probes s))) program = Inl e \<or>
                     (\<exists>semantic.
                        getSemanticDiagnostics (ts w (length (probes s))) program
                          = Inr semantic) \<and>
                     (getSyntacticDiagnostics (ts w (length (probes s))) program = Inl e \<or>
                      (\<exists>syntactic.
                         getSyntacticDiagnostics (ts w (length (probes s))) program
                           = Inr syntactic) \<and>
                      getGlobalDiagnostics (ts w (length (probes s))) program
                        = Inl e)))))))))"
  shows "\<exists>elapsed.
           fst (measureTypeChecking w fileName s) =
             \<lparr> file_name = fileName, typeCheckTime = 0, totalTime = elapsed,
               diagnosticsCount = 0, success = False, error = Some (message_of e) \<rparr>"
proof -
  have "\<exists>h'. try_block w (length (probes s)) fileName (path_resolve w fileName)
       (now w (timeline s)) (timeline s @ [Clock_read]) = (Inl e, h')"
    using assms(2) by (rule iffD2 [OF try_block_raises_iff])
  then obtain h' where
    "try_block w (length (probes s)) fileName (path_resolve w fileName)
       (now w (timeline s)) (timeline s @ [Clock_read]) = (Inl e, h')"
    by blast
  then show ?thesis
    using assms(1) by (simp add: measureTypeChecking_fst measure_at_caught)
qed

theorem measureTypeChecking_catches_witness:
  "fs_existsSync no_config_world 0 (path_resolve no_config_world ''a.ts'') \<and>
   findConfigFile (ts no_config_world 0) = Inr None \<and>
   fst (measureTypeChecking no_config_world ''a.ts'' s0) =
     \<lparr> file_name = ''a.ts'', typeCheckTime = 0, totalTime = 10, diagnosticsCount = 0,
       success = False, error = Some ''Could not find a valid 'tsconfig.json'.'' \<rparr> \<and>
   createProgram (ts create_throws_world 0) [''/repo/a.ts''] () = Inl (Error_obj ''boom'') \<and>
   fst (measureTypeChecking create_throws_world ''a.ts'' s0) =
     \<lparr> file_name = ''a.ts'', typeCheckTime = 0, totalTime = 10, diagnosticsCount = 0,
       success = False, error = Some ''boom'' \<rparr> \<and>
   getGlobalDiagnostics (ts diagnostics_throw_world 0) () = Inl (Thrown_value ''out of memory'') \<and>
   fst (measureTypeChecking diagnostics_throw_world ''a.ts'' s0) =
     \<lparr> file_name = ''a.ts'', typeCheckTime = 0, totalTime = 20, diagnosticsCount = 0,
       success = False, error = Some ''out of memory'' \<rparr>"
proof -
  have caught:
    "\<exists>elapsed. fst (measureTypeChecking no_config_world ''a.ts'' s0) =
       \<lparr> file_name = ''a.ts'', typeCheckTime = 0, totalTime = elapsed, diagnosticsCount = 0,
         success = False, error = Some ''Could not find a valid 'tsconfig.json'.'' \<rparr>"
    "\<exists>elapsed. fst (measureTypeChecking create_throws_world ''a.ts'' s0) =
       \<lparr> file_name = ''a.ts'', typeCheckTime = 0, totalTime = elapsed, diagnosticsCount = 0,
         success = False, error = Some ''boom'' \<rparr>"
    "\<exists>elapsed. fst (measureTypeChecking diagnostics_throw_world ''a.ts'' s0) =
       \<lparr> file_name = ''a.ts'', typeCheckTime = 0, totalTime = elapsed, diagnosticsCount = 0,
         success = False, error = Some ''out of memory'' \<rparr>"
    using
      measureTypeChecking_catches [of no_config_world s0 "''a.ts''"
        "Error_obj ''Could not find a valid 'tsconfig.json'.''"]
      measureTypeChecking_catches [of create_throws_world s0 "''a.ts''" "Error_obj ''boom''"]
      measureTypeChecking_catches [of diagnostics_throw_world s0 "''a.ts''"
        "Thrown_value ''out of memory''"]
    by (simp_all add: worlds)
  have run:
    "fs_existsSync no_config_world 0 (path_resolve no_config_world ''a.ts'')"
    "findConfigFile (ts no_config_world 0) = Inr None"
    "fst (measureTypeChecking no_config_world ''a.ts'' s0) =
     \<lparr> file_name = ''a.ts'', typeCheckTime = 0, totalTime = 10, diagnosticsCount = 0,
       success = False, error = Some ''Could not find a valid 'tsconfig.json'.'' \<rparr>"
    "createProgram (ts create_throws_world 0) [''/repo/a.ts''] () = Inl (Error_obj ''boom'')"
    "fst (measureTypeChecking create_throws_world ''a.ts'' s0) =
     \<lparr> file_name = ''a.ts'', typeCheckTime = 0, totalTime = 10, diagnosticsCount = 0,
       success = False, error = Some ''boom'' \<rparr>"
    "getGlobalDiagnostics (ts diagnostics_throw_world 0) () = Inl (Thrown_value ''out of memory'')"
    "fst (measureTypeChecking diagnostics_throw_world ''a.ts'' s0) =
     \<lparr> file_name = ''a.ts'', typeCheckTime = 0, totalTime = 20, diagnosticsCount = 0,
       success = False, error = Some ''out of memory'' \<rparr>"
    by (simp_all add: worlds measureTypeChecking_fst measure_at_def try_block_def)
  from caught run show ?thesis by blast
qed

text \<open>
  Claim C8. With a clock that does not run backwards, every measurement the Prober
  returns has \<open>0 \<le> typeCheckTime \<le> totalTime\<close>. In a successful probe the events
  are, in this order: a reading of the clock, the lookup, reading and parsing of the
  configuration and the construction of the program, a second reading, the collection of
  the three kinds of diagnostics, and two more readings. \<open>typeCheckTime\<close> is the time
  from the second reading to the third, which holds the collection of the diagnostics
  only; \<open>totalTime\<close> is the time from the first reading to the fourth, and so holds, on
  top of \<open>typeCheckTime\<close>, the time that passes from the end of the first reading to
  the second one, during the lookup of the configuration and the construction of the
  program.
\<close>

theorem measureTypeChecking_times:
  assumes "\<forall>h h'. prefix h h' \<longrightarrow> now w h \<le> now w h'"
  shows "0 \<le> typeCheckTime (fst (measureTypeChecking w fileName s)) \<and>
         typeCheckTime (fst (measureTypeChecking w fileName s))
           \<le> totalTime (fst (measureTypeChecking w fileName s)) \<and>
         (success (fst (measureTypeChecking w fileName s)) \<longrightarrow>
            timeline (snd (measureTypeChecking w fileName s)) =
              timeline s @
              [Clock_read,
               Compiler Find_config, Compiler Read_config, Compiler Parse_config,
               Compiler Create_program,
               Clock_read,
               Compiler Semantic_diagnostics, Compiler Syntactic_diagnostics,
               Compiler Global_diagnostics,
               Clock_read, Clock_read] \<and>
            typeCheckTime (fst (measureTypeChecking w fileName s)) =
              now w (timeline s @
                     [Clock_read,
                      Compiler Find_config, Compiler Read_config, Compiler Parse_config,
                      Compiler Create_program,
                      Clock_read,
                      Compiler Semantic_diagnostics, Compiler Syntactic_diagnostics,
                      Compiler Global_diagnostics])
              - now w (timeline s @
                       [Clock_read,
                        Compiler Find_config, Compiler Read_config, Compiler Parse_config,
                        Compiler Create_program]) \<and>
            totalTime (fst (measureTypeChecking w fileName s)) =
              now w (timeline s @
                     [Clock_read,
                      Compiler Find_config, Compiler Read_config, Compiler Parse_config,
                      Compiler Create_program,
                      Clock_read,
                      Compiler Semantic_diagnostics, Compiler Syntactic_diagnostics,
                      Compiler Global_diagnostics,
                      Clock_read])
              - now w (timeline s) \<and>
            typeCheckTime (fst (measureTypeChecking w fileName s))
              + (now w (timeline s @
                        [Clock_read,
                         Compiler Find_config, Compiler Read_config, Compiler Parse_config,
                         Compiler Create_program])
                 - now w (timeline s @ [Clock_read]))
              \<le> totalTime (fst (measureTypeChecking w fileName s)))"
proof -
  let ?n = "length (probes s)" and ?h = "timeline s"
  let ?full = "path_resolve w fileName"
  have mono: "\<And>h h'. prefix h h' \<Longrightarrow> now w h \<le> now w h'" using assms by blast
  show ?thesis
  proof (cases "fs_existsSync w ?n ?full")
    case False
    then show ?thesis by (simp add: measureTypeChecking_fst measure_at_missing)
  next
    case True
    obtain res h' where
      tb: "try_block w ?n fileName ?full (now w ?h) (?h @ [Clock_read]) = (res, h')"
      by (cases "try_block w ?n fileName ?full (now w ?h) (?h @ [Clock_read])") blast
    show ?thesis
    proof (cases res)
      case (Inl e)
      have "prefix (?h @ [Clock_read]) h'" using try_block_history [OF tb] .
      then have "prefix ?h h'" by (metis append_prefixD)
      then have "now w ?h \<le> now w h'" by (rule mono)
      then show ?thesis
        using True tb Inl by (simp add: measureTypeChecking_fst measure_at_caught)
    next
      case (Inr r)
      let ?build = "[Compiler Find_config, Compiler Read_config, Compiler Parse_config,
                     Compiler Create_program]"
      let ?diag = "[Compiler Semantic_diagnostics, Compiler Syntactic_diagnostics,
                    Compiler Global_diagnostics]"
      have m: "now w ?h \<le> now w (?h @ [Clock_read])"
        "now w (?h @ [Clock_read]) \<le> now w (?h @ Clock_read # ?build)"
        "now w (?h @ Clock_read # ?build) \<le> now w (?h @ Clock_read # ?build @ Clock_read # ?diag)"
        "now w (?h @ Clock_read # ?build @ Clock_read # ?diag)
           \<le> now w (?h @ Clock_read # ?build @ Clock_read # ?diag @ [Clock_read])"
        by (rule mono, simp)+
      from tb Inr have r: "fst (measureTypeChecking w fileName s) = r"
        "timeline (snd (measureTypeChecking w fileName s)) = h'"
        using True by (simp_all add: measureTypeChecking_fst measureTypeChecking_timeline
            measure_at_returned)
      from tb Inr have
        "h' = ?h @ Clock_read # ?build @ Clock_read # ?diag @ [Clock_read, Clock_read]"
        "typeCheckTime r = now w (?h @ Clock_read # ?build @ Clock_read # ?diag)
                           - now w (?h @ Clock_read # ?build)"
        "totalTime r = now w (?h @ Clock_read # ?build @ Clock_read # ?diag @ [Clock_read])
                       - now w ?h"
        using try_block_success [of w ?n fileName ?full "now w ?h" "?h @ [Clock_read]" r h']
        by simp_all
      then show ?thesis unfolding r using m by simp
    qed
  qed
qed

lemma timed_world_monotone:
  "prefix h h' \<Longrightarrow> now timed_world h \<le> now timed_world h'"
proof -
  assume "prefix h h'"
  then obtain zs where "h' = h @ zs" by (auto simp: prefix_def)
  moreover have "0 \<le> duration ev" for ev
    by (cases ev rule: duration.cases) simp_all
  then have "0 \<le> sum_list (map duration zs)"
    by (intro sum_list_nonneg) auto
  ultimately show ?thesis by (simp add: timed_world_def ok_world_def)
qed

theorem measureTypeChecking_times_witness:
  "success (fst (measureTypeChecking timed_world ''a.ts'' s0)) \<and>
   typeCheckTime (fst (measureTypeChecking timed_world ''a.ts'' s0)) = 106 \<and>
   totalTime (fst (measureTypeChecking timed_world ''a.ts'' s0)) = 152 \<and>
   now timed_world
     [Clock_read, Compiler Find_config, Compiler Read_config, Compiler Parse_config,
      Compiler Create_program]
     - now timed_world [Clock_read] = 46 \<and>
   timeline (snd (measureTypeChecking timed_world ''a.ts'' s0)) =
     [Clock_read,
      Compiler Find_config, Compiler Read_config, Compiler Parse_config,
      Compiler Create_program,
      Clock_read,
      Compiler Semantic_diagnostics, Compiler Syntactic_diagnostics,
      Compiler Global_diagnostics,
      Clock_read, Clock_read]"
proof -
  have "\<forall>h h'. prefix h h' \<longrightarrow> now timed_world h \<le> now timed_world h'"
    using timed_world_monotone by blast
  from measureTypeChecking_times [OF this, of "''a.ts''" s0] show ?thesis
    by (simp add: worlds measureTypeChecking_fst measureTypeChecking_timeline measure_at_def
          try_block_def)
qed

section \<open>Properties of the Benchmark Runner\<close>

lemma measure_iterations_spec:
  "\<exists>new. fst (measure_iterations w fl N i pushed s) = pushed @ new \<and>
         probes (snd (measure_iterations w fl N i pushed s)) = probes s @ map (Pair fl) new \<and>
         fail_fast (N - i) new"
proof (induction w fl N i pushed s rule: measure_iterations.induct)
  case (1 w fl N i pushed s)
  let ?rs = "measureTypeChecking w fl s"
  show ?case
  proof (cases "i < N")
    case False
    then show ?thesis by (simp add: fail_fast_def)
  next
    case True
    show ?thesis
    proof (cases "success (fst ?rs)")
      case False
      have "fail_fast (N - i) [fst ?rs]" using True False by (auto simp: fail_fast_def)
      then show ?thesis using True False
        by (intro exI [of _ "[fst ?rs]"]) (simp add: Let_def measureTypeChecking_probes)
    next
      case ok: True
      from "1.IH" [OF True refl refl] ok obtain new where
        new: "fst (measure_iterations w fl N (i + 1) (pushed @ [fst ?rs]) (snd ?rs))
                = (pushed @ [fst ?rs]) @ new"
          "probes (snd (measure_iterations w fl N (i + 1) (pushed @ [fst ?rs]) (snd ?rs)))
                = probes (snd ?rs) @ map (Pair fl) new"
          "fail_fast (N - (i + 1)) new"
        by auto
      have ff: "fail_fast (N - i) (fst ?rs # new)"
        unfolding fail_fast_def
      proof (intro conjI allI impI)
        show "length (fst ?rs # new) \<le> nat (N - i)"
          using new(3) True by (simp add: fail_fast_def) linarith
        show "success ((fst ?rs # new) ! j)" if "Suc j < length (fst ?rs # new)" for j
          using that new(3) ok by (cases j) (auto simp: fail_fast_def)
        show "fst ?rs # new \<noteq> []" by simp
        show "\<not> success (last (fst ?rs # new))" if "length (fst ?rs # new) < nat (N - i)"
        proof -
          from that True have "length new < nat (N - (i + 1))" by simp
          with new(3) show ?thesis by (simp add: fail_fast_def)
        qed
      qed
      show ?thesis
        using True ok new ff
        by (intro exI [of _ "fst ?rs # new"]) (simp add: Let_def measureTypeChecking_probes)
    qed
  qed
qed

lemma warm_up_probes:
  "\<exists>warm. length warm = length files \<and> probes (warm_up w files s) = probes s @ zip files warm"
proof (induction files arbitrary: s)
  case Nil
  then show ?case by simp
next
  case (Cons f fs)
  from Cons [of "snd (measureTypeChecking w f s)"] obtain warm where
    "length warm = length fs"
    "probes (warm_up w fs (snd (measureTypeChecking w f s)))
       = probes (snd (measureTypeChecking w f s)) @ zip fs warm"
    by blast
  then show ?case
    by (intro exI [of _ "fst (measureTypeChecking w f s) # warm"])
       (simp add: measureTypeChecking_probes)
qed

lemma record_set_twice [simp]: "record_set k v (record_set k v' r) = record_set k v r"
  by (induction r) auto

lemma measure_files_spec:
  "\<exists>blocks. length blocks = length files \<and>
      probes (snd (measure_files w files N results s))
        = probes s @ concat (map (\<lambda>(f, b). map (Pair f) b) (zip files blocks)) \<and>
      fst (measure_files w files N results s)
        = foldl (\<lambda>r (f, b). record_set f b r) results (zip files blocks) \<and>
      list_all (fail_fast N) blocks"
proof (induction files arbitrary: results s)
  case Nil
  then show ?case by simp
next
  case (Cons f fs)
  let ?ms = "measure_iterations w f N 0 [] s"
  from measure_iterations_spec [of w f N 0 "[]" s] obtain b where
    b: "fst ?ms = b" "probes (snd ?ms) = probes s @ map (Pair f) b" "fail_fast N b"
    by auto
  from Cons [of "record_set f b results" "snd ?ms"] obtain blocks where
    bl: "length blocks = length fs"
      "probes (snd (measure_files w fs N (record_set f b results) (snd ?ms)))
        = probes (snd ?ms) @ concat (map (\<lambda>(f, b). map (Pair f) b) (zip fs blocks))"
      "fst (measure_files w fs N (record_set f b results) (snd ?ms))
        = foldl (\<lambda>r (f, b). record_set f b r) (record_set f b results) (zip fs blocks)"
      "list_all (fail_fast N) blocks"
    by blast
  show ?case
    using b bl by (intro exI [of _ "b # blocks"]) (simp add: Let_def)
qed

text \<open>
  Claim C4. The invocations of the Prober in a run of \<open>runBenchmark w files N\<close> are, in
  this order: one for each file of the list (the warm-up, whose measurements \<open>warm\<close> do
  not reach the summary table), and then for each file of the list a block of measured
  invocations. A block has at most \<open>N\<close> invocations; all but its last one succeeded, so
  nothing follows a failed measurement inside a block; a block is shorter than \<open>N\<close> only
  when it ends with a failed measurement; and whatever happened in the blocks before, the
  block of a file is not empty when \<open>N\<close> is positive.
\<close>

theorem runBenchmark_invocations:
  "\<exists>warm blocks.
     length warm = length files \<and> length blocks = length files \<and>
     probes (snd (runBenchmark w files N s))
       = probes s @ zip files warm @ concat (map (\<lambda>(f, b). map (Pair f) b) (zip files blocks)) \<and>
     (\<forall>b \<in> set blocks.
        length b \<le> nat N \<and>
        (\<forall>j. Suc j < length b \<longrightarrow> success (b ! j)) \<and>
        (length b < nat N \<longrightarrow> b \<noteq> [] \<and> \<not> success (last b)) \<and>
        (0 < N \<longrightarrow> b \<noteq> [])) \<and>
     summary_table (fst (runBenchmark w files N s))
       = map summary_row_of
           (Object_entries (foldl (\<lambda>r (f, b). record_set f b r) [] (zip files blocks)))"
proof -
  from warm_up_probes [of files w s] obtain warm where
    w: "length warm = length files" "probes (warm_up w files s) = probes s @ zip files warm"
    by blast
  from measure_files_spec [of files w N "[]" "warm_up w files s"] obtain blocks where
    b: "length blocks = length files"
      "probes (snd (measure_files w files N [] (warm_up w files s)))
        = probes (warm_up w files s) @ concat (map (\<lambda>(f, b). map (Pair f) b) (zip files blocks))"
      "fst (measure_files w files N [] (warm_up w files s))
        = foldl (\<lambda>r (f, b). record_set f b r) [] (zip files blocks)"
      "list_all (fail_fast N) blocks"
    by blast
  show ?thesis
    using w b
    by (intro exI [of _ warm] exI [of _ blocks])
       (auto simp: runBenchmark_def Let_def list_all_iff fail_fast_def)
qed

lemma measureTypeChecking_example:
  "measureTypeChecking (ok_world \<lparr> fs_existsSync := (\<lambda>n p. E n) \<rparr>) f s =
     (if E (length (probes s))
      then (ok_measurement f,
            \<lparr> probes = probes s @ [(f, ok_measurement f)],
              timeline = timeline s @
                [Clock_read,
                 Compiler Find_config, Compiler Read_config, Compiler Parse_config,
                 Compiler Create_program,
                 Clock_read,
                 Compiler Semantic_diagnostics, Compiler Syntactic_diagnostics,
                 Compiler Global_diagnostics,
                 Clock_read, Clock_read] \<rparr>)
      else (missing_measurement f,
            \<lparr> probes = probes s @ [(f, missing_measurement f)], timeline = timeline s \<rparr>))"
  by (simp add: ok_world_def ok_ts_def measureTypeChecking_def measure_at_def try_block_def
        ok_measurement_def missing_measurement_def)

lemmas example_probes =
  measureTypeChecking_example [of "\<lambda>n. n < 2", folded vanishing_world_def]
  measureTypeChecking_example [of "\<lambda>n. n \<noteq> 3", folded glitch_world_def]
  measureTypeChecking_example [of "\<lambda>n. False", folded missing_world_def]

lemma example_fields:
  "success (ok_measurement f)" "\<not> success (missing_measurement f)"
  "typeCheckTime (ok_measurement f) = 10" "typeCheckTime (missing_measurement f) = 0"
  "diagnosticsCount (ok_measurement f) = 1" "diagnosticsCount (missing_measurement f) = 0"
  by (simp_all add: ok_measurement_def missing_measurement_def)

theorem runBenchmark_invocations_witness:
  "probes (snd (runBenchmark glitch_world [''a.ts'', ''b.ts''] 2 s0)) =
     [(''a.ts'', ok_measurement ''a.ts''), (''b.ts'', ok_measurement ''b.ts''),
      (''a.ts'', ok_measurement ''a.ts''), (''a.ts'', missing_measurement ''a.ts''),
      (''b.ts'', ok_measurement ''b.ts''), (''b.ts'', ok_measurement ''b.ts'')]"
proof -
  have run: "probes (snd (runBenchmark glitch_world [''a.ts'', ''b.ts''] 2 s0)) =
     [(''a.ts'', ok_measurement ''a.ts''), (''b.ts'', ok_measurement ''b.ts''),
      (''a.ts'', ok_measurement ''a.ts''), (''a.ts'', missing_measurement ''a.ts''),
      (''b.ts'', ok_measurement ''b.ts''), (''b.ts'', ok_measurement ''b.ts'')]"
    by (simp add: s0_def runBenchmark_def example_probes example_fields Let_def)
  show ?thesis
    using runBenchmark_invocations [where files = "[''a.ts'', ''b.ts'']" and w = glitch_world
        and N = 2 and s = s0]
    by (simp only: run)
qed

subsection \<open>The summary table\<close>

text \<open>
  When every measurement pushed for a file succeeded, the row of the code is the row over
  the successful iterations; a file without a measurement, or whose first measurement
  failed, gets the \<^verbatim>\<open>ERROR\<close> row.
\<close>

lemma summary_row_of_all_success:
  assumes "fileResults \<noteq> []" and "list_all success fileResults"
  shows "summary_row_of (f, fileResults) = summary_row_claimed (f, fileResults)"
proof -
  have "filter success fileResults = fileResults"
    using assms(2) by (simp add: list_all_iff)
  moreover have "success (fileResults ! 0)"
    using assms by (cases fileResults) simp_all
  ultimately show ?thesis
    using assms(1) by (simp add: summary_row_of_def summary_row_claimed_def)
qed

lemma summary_row_of_error:
  "fileResults = [] \<or> \<not> success (fileResults ! 0) \<Longrightarrow>
   summary_row_of (f, fileResults) =
     \<lparr> File = f, Avg_Type_Check_ms = ERROR, Min_ms = Dash, Max_ms = Dash, Diagnostics = 0 \<rparr>"
  by (auto simp: summary_row_of_def)

lemma foldl_plus_sum_list: "foldl (+) a xs = a + sum_list (xs :: real list)"
  by (induction xs arbitrary: a) simp_all

lemma summary_row_of_valid:
  assumes "fileResults \<noteq> []" and "success (fileResults ! 0)"
  shows "File (summary_row_of (f, fileResults)) = f"
    and "Avg_Type_Check_ms (summary_row_of (f, fileResults)) =
           Fixed2 (toFixed2 (sum_list (map typeCheckTime fileResults) / real (length fileResults)))"
    and "Diagnostics (summary_row_of (f, fileResults)) = diagnosticsCount (fileResults ! 0)"
  using assms by (simp_all add: summary_row_of_def Let_def foldl_plus_sum_list)

text \<open>
  Claim C1 says that the summary row of a fixture with a successful measurement reports
  average, minimum and maximum over the successful iterations only. The code takes them
  over every measurement pushed, and the loop pushes a failed measurement before it
  stops. With two iterations on a file that is there for the first measured invocation
  and gone for the second, the times are 10 and 0: the row printed has the average 5.00
  and the minimum 0.00, where the successful iterations alone give 10.00 for both. The
  diagnostic count is that of the first iteration, as claimed.
\<close>

theorem summary_includes_failed_iteration:
  "probes (snd (runBenchmark vanishing_world [''a.ts''] 2 s0)) =
     [(''a.ts'', ok_measurement ''a.ts''), (''a.ts'', ok_measurement ''a.ts''),
      (''a.ts'', missing_measurement ''a.ts'')] \<and>
   summary_table (fst (runBenchmark vanishing_world [''a.ts''] 2 s0)) =
     [\<lparr> File = ''a.ts'', Avg_Type_Check_ms = Fixed2 500, Min_ms = Fixed2 0,
        Max_ms = Fixed2 1000, Diagnostics = 1 \<rparr>] \<and>
   summary_row_claimed (''a.ts'', [ok_measurement ''a.ts'', missing_measurement ''a.ts'']) =
     \<lparr> File = ''a.ts'', Avg_Type_Check_ms = Fixed2 1000, Min_ms = Fixed2 1000,
       Max_ms = Fixed2 1000, Diagnostics = 1 \<rparr>"
  by (simp add: s0_def runBenchmark_def example_probes example_fields Let_def
        Object_entries_def is_array_index_def is_decimal_digit_def summary_row_of_def
        summary_row_claimed_def toFixed2_def round_def)

subsection \<open>The comparison table\<close>

text \<open>
  On rows whose averages are texts with two decimals, the comparator of line 192 orders as
  the stable insertion sort on the differences does, and the fold of line 166 finds a row
  with the least average. When a row is left after the filter, the comparison table is
  then as \<open>comparison_table\<close> says: it has the files of the rows not flagged
  \<^verbatim>\<open>ERROR\<close>, it is sorted by the difference, the difference of a row is its average
  minus the least one, and, when the least average is not 0.00, the rows with the least
  average are labelled \<^verbatim>\<open>BASELINE\<close> and the others have a ratio above 1. With a least
  average of 0.00 the ratio of the fastest row is \<^verbatim>\<open>NaN\<close> and the label is lost.
\<close>

lemma toFixed2_hundredths [simp]: "toFixed2 (real_of_int n / 100) = n"
proof -
  have "round (- real_of_int n) = - n"
    by (simp flip: of_int_minus)
  then show ?thesis by (simp add: toFixed2_def)
qed

lemma sort_insert_insort_key:
  assumes "key x = Num (real_of_int (k x) / 100)" and "\<forall>y \<in> set ys. key y = Num (real_of_int (k y) / 100)"
  shows "sort_insert (\<lambda>a b. js_sub (key a) (key b)) x ys = insort_key k x ys"
  using assms(2) by (induction ys) (auto simp: assms(1))

lemma js_sort_sort_key:
  assumes "\<forall>x \<in> set xs. key x = Num (real_of_int (k x) / 100)"
  shows "js_sort (\<lambda>a b. js_sub (key a) (key b)) xs = sort_key k xs"
  using assms
proof (induction xs)
  case Nil
  then show ?case by (simp add: js_sort_def)
next
  case (Cons x xs)
  then have "js_sort (\<lambda>a b. js_sub (key a) (key b)) xs = sort_key k xs" by simp
  moreover have "\<forall>y \<in> set (sort_key k xs). key y = Num (real_of_int (k y) / 100)"
    using Cons.prems by simp
  ultimately show ?case
    using Cons.prems sort_insert_insort_key [of key x k "sort_key k xs"]
    by (simp add: js_sort_def)
qed

lemma foldl_fastest:
  assumes "\<forall>d \<in> set (x # xs). Avg_Type_Check_ms d = Fixed2 (avg_hundredths d)"
  shows "foldl (\<lambda>a b. if js_less (parseFloat (Avg_Type_Check_ms a))
                                   (parseFloat (Avg_Type_Check_ms b)) then a else b) x xs
           \<in> set (x # xs) \<and>
         (\<forall>d \<in> set (x # xs).
            avg_hundredths (foldl (\<lambda>a b. if js_less (parseFloat (Avg_Type_Check_ms a))
                                   (parseFloat (Avg_Type_Check_ms b)) then a else b) x xs)
              \<le> avg_hundredths d)"
  using assms
proof (induction xs arbitrary: x)
  case Nil
  then show ?case by simp
next
  case (Cons y ys)
  let ?f = "\<lambda>a b. if js_less (parseFloat (Avg_Type_Check_ms a))
                                   (parseFloat (Avg_Type_Check_ms b)) then a else b"
  have x: "Avg_Type_Check_ms x = Fixed2 (avg_hundredths x)"
    and y: "Avg_Type_Check_ms y = Fixed2 (avg_hundredths y)"
    using Cons.prems by simp_all
  have fxy: "?f x y = (if avg_hundredths x < avg_hundredths y then x else y)"
    by (simp add: x y)
  have "\<forall>d \<in> set (?f x y # ys). Avg_Type_Check_ms d = Fixed2 (avg_hundredths d)"
    using Cons.prems by auto
  from Cons.IH [OF this] show ?case
    using fxy by (auto split: if_splits)
qed

lemma comparison_row_of_valid:
  assumes "Avg_Type_Check_ms d = Fixed2 n" and "m \<le> n"
  shows "comparison_row_of (Num (real_of_int m / 100)) d =
           \<lparr> cmp_File = File d,
             Relative_Speed =
               (if m \<noteq> 0 \<and> n = m then BASELINE
                else X_slower (toFixed (js_div (Num (real_of_int n / 100))
                                              (Num (real_of_int m / 100))))),
             Absolute_Diff_ms = (True, Fixed2 (n - m)) \<rparr>"
proof -
  have d: "real_of_int n / 100 - real_of_int m / 100 = real_of_int (n - m) / 100"
    by (simp add: diff_divide_distrib)
  have ge: "js_ge (Num (real_of_int (n - m) / 100)) (Num 0)"
    using assms(2) by (auto simp: js_ge_def js_strict_eq_def)
  have eq1: "js_strict_eq (js_div (Num (real_of_int n / 100)) (Num (real_of_int m / 100))) (Num 1)
               = (m \<noteq> 0 \<and> n = m)"
    by (auto simp: js_strict_eq_def)
  show ?thesis
    unfolding comparison_row_of_def Let_def assms(1) parseFloat.simps js_sub.simps d
      toFixed.simps toFixed2_hundredths eq1
    using ge by simp
qed

lemma ratio_at_least_one:
  assumes "0 < m" and "m \<le> n"
  shows "\<exists>ratio. js_div (Num (real_of_int n / 100)) (Num (real_of_int m / 100)) = Num ratio \<and>
           ratio = real_of_int n / real_of_int m \<and> 1 \<le> ratio"
  using assms by simp

lemma comparison_valid:
  assumes "filter (\<lambda>d. Avg_Type_Check_ms d \<noteq> ERROR) summaryData \<noteq> []"
    and "\<forall>d \<in> set summaryData.
           Avg_Type_Check_ms d = ERROR \<or> Avg_Type_Check_ms d = Fixed2 (avg_hundredths d)"
  shows "\<exists>fastest \<in> set (filter (\<lambda>d. Avg_Type_Check_ms d \<noteq> ERROR) summaryData).
           (\<forall>d \<in> set (filter (\<lambda>d. Avg_Type_Check_ms d \<noteq> ERROR) summaryData).
              avg_hundredths fastest \<le> avg_hundredths d) \<and>
           comparison summaryData =
             Inr (sort_key diff_hundredths
                    (map (comparison_row_of (Num (real_of_int (avg_hundredths fastest) / 100)))
                       (filter (\<lambda>d. Avg_Type_Check_ms d \<noteq> ERROR) summaryData)))"
proof -
  let ?valid = "filter (\<lambda>d. Avg_Type_Check_ms d \<noteq> ERROR) summaryData"
  let ?f = "\<lambda>a b. if js_less (parseFloat (Avg_Type_Check_ms a))
                                   (parseFloat (Avg_Type_Check_ms b)) then a else b"
  from assms(1) obtain x xs where v: "?valid = x # xs" by (cases ?valid) auto
  have fx: "\<forall>d \<in> set ?valid. Avg_Type_Check_ms d = Fixed2 (avg_hundredths d)"
    using assms(2) by auto
  let ?fastest = "foldl ?f x xs"
  have fa: "?fastest \<in> set ?valid" "\<forall>d \<in> set ?valid. avg_hundredths ?fastest \<le> avg_hundredths d"
    using foldl_fastest [of x xs] fx unfolding v by blast+
  have ft: "parseFloat (Avg_Type_Check_ms ?fastest) = Num (real_of_int (avg_hundredths ?fastest) / 100)"
  proof -
    from fa(1) fx have "Avg_Type_Check_ms ?fastest = Fixed2 (avg_hundredths ?fastest)"
      by blast
    then show ?thesis by simp
  qed
  let ?rows = "map (comparison_row_of (Num (real_of_int (avg_hundredths ?fastest) / 100))) ?valid"
  have keys: "\<forall>r \<in> set ?rows.
     parseFloat (snd (Absolute_Diff_ms r)) = Num (real_of_int (diff_hundredths r) / 100)"
  proof
    fix r assume "r \<in> set ?rows"
    then obtain d where d: "d \<in> set ?valid"
      and r: "r = comparison_row_of (Num (real_of_int (avg_hundredths ?fastest) / 100)) d"
      by auto
    have "Avg_Type_Check_ms d = Fixed2 (avg_hundredths d)" using d fx by blast
    moreover have "avg_hundredths ?fastest \<le> avg_hundredths d" using d fa(2) by blast
    ultimately show "parseFloat (snd (Absolute_Diff_ms r)) = Num (real_of_int (diff_hundredths r) / 100)"
      unfolding r by (simp add: comparison_row_of_valid diff_hundredths_def)
  qed
  have "comparison summaryData =
          Inr (js_sort (\<lambda>a b. js_sub (parseFloat (snd (Absolute_Diff_ms a)))
                                      (parseFloat (snd (Absolute_Diff_ms b)))) ?rows)"
    unfolding comparison_def Let_def v reduce.simps sum.case ft
    by (simp only: v [symmetric])
  also have "js_sort (\<lambda>a b. js_sub (parseFloat (snd (Absolute_Diff_ms a)))
                                      (parseFloat (snd (Absolute_Diff_ms b)))) ?rows
               = sort_key diff_hundredths ?rows"
    using keys by (rule js_sort_sort_key)
  finally show ?thesis using fa by blast
qed

lemma comparison_throws_iff:
  "(\<exists>e. comparison summaryData = Inl e) \<longleftrightarrow>
     filter (\<lambda>d. Avg_Type_Check_ms d \<noteq> ERROR) summaryData = []"
  by (cases "filter (\<lambda>d. Avg_Type_Check_ms d \<noteq> ERROR) summaryData")
     (simp_all add: comparison_def Let_def)

lemma summary_rows_wellformed:
  "Avg_Type_Check_ms (summary_row_of entry) = ERROR \<or>
   Avg_Type_Check_ms (summary_row_of entry) = Fixed2 (avg_hundredths (summary_row_of entry))"
  by (cases "snd entry") (auto simp: summary_row_of_def Let_def avg_hundredths_def)

lemma baseline_lost_at_zero:
  assumes "Avg_Type_Check_ms d = Fixed2 0"
  shows "Relative_Speed (comparison_row_of (Num (real_of_int 0 / 100)) d) = X_slower NaN_text"
  using comparison_row_of_valid [OF assms, of 0] by simp

lemma comparison_table:
  assumes "filter (\<lambda>d. Avg_Type_Check_ms d \<noteq> ERROR) summaryData \<noteq> []"
    and "\<forall>d \<in> set summaryData.
           Avg_Type_Check_ms d = ERROR \<or> Avg_Type_Check_ms d = Fixed2 (avg_hundredths d)"
  shows "\<exists>rows m.
           comparison summaryData = Inr rows \<and>
           mset (map cmp_File rows)
             = mset (map File (filter (\<lambda>d. Avg_Type_Check_ms d \<noteq> ERROR) summaryData)) \<and>
           sorted (map diff_hundredths rows) \<and>
           (\<exists>d \<in> set summaryData. Avg_Type_Check_ms d = Fixed2 m) \<and>
           (\<forall>d \<in> set summaryData. Avg_Type_Check_ms d \<noteq> ERROR \<longrightarrow> m \<le> avg_hundredths d) \<and>
           (\<forall>r \<in> set rows. \<exists>d \<in> set summaryData.
              Avg_Type_Check_ms d \<noteq> ERROR \<and> cmp_File r = File d \<and>
              Absolute_Diff_ms r = (True, Fixed2 (avg_hundredths d - m)) \<and>
              (0 < m \<longrightarrow>
                 (avg_hundredths d = m \<longrightarrow> Relative_Speed r = BASELINE) \<and>
                 (avg_hundredths d \<noteq> m \<longrightarrow>
                    Relative_Speed r =
                      X_slower (Fixed2 (toFixed2 (real_of_int (avg_hundredths d) / real_of_int m))) \<and>
                    1 < real_of_int (avg_hundredths d) / real_of_int m)))"
proof -
  let ?valid = "filter (\<lambda>d. Avg_Type_Check_ms d \<noteq> ERROR) summaryData"
  from comparison_valid [OF assms] obtain fastest where
    f: "fastest \<in> set ?valid" "\<forall>d \<in> set ?valid. avg_hundredths fastest \<le> avg_hundredths d"
    and c: "comparison summaryData =
             Inr (sort_key diff_hundredths
                    (map (comparison_row_of (Num (real_of_int (avg_hundredths fastest) / 100)))
                       ?valid))"
    by blast
  let ?m = "avg_hundredths fastest"
  let ?rows = "sort_key diff_hundredths (map (comparison_row_of (Num (real_of_int ?m / 100))) ?valid)"
  have fx: "Avg_Type_Check_ms d = Fixed2 (avg_hundredths d)" if "d \<in> set ?valid" for d
    using that assms(2) by auto
  have row: "comparison_row_of (Num (real_of_int ?m / 100)) d =
           \<lparr> cmp_File = File d,
             Relative_Speed =
               (if ?m \<noteq> 0 \<and> avg_hundredths d = ?m then BASELINE
                else X_slower (toFixed (js_div (Num (real_of_int (avg_hundredths d) / 100))
                                              (Num (real_of_int ?m / 100))))),
             Absolute_Diff_ms = (True, Fixed2 (avg_hundredths d - ?m)) \<rparr>"
    if "d \<in> set ?valid" for d
    using comparison_row_of_valid [OF fx [OF that]] f(2) that by blast
  have files: "map cmp_File (map (comparison_row_of (Num (real_of_int ?m / 100))) ?valid)
                 = map File ?valid"
    using row by (simp add: comp_def)
  have 1: "mset (map cmp_File ?rows) = mset (map File ?valid)"
  proof -
    have "mset (map cmp_File ?rows)
            = mset (map cmp_File (map (comparison_row_of (Num (real_of_int ?m / 100))) ?valid))"
      by (simp only: mset_map mset_sort)
    then show ?thesis by (simp only: files)
  qed
  have 2: "sorted (map diff_hundredths ?rows)" by simp
  have 3: "\<exists>d \<in> set summaryData. Avg_Type_Check_ms d = Fixed2 ?m"
    using f(1) fx [OF f(1)] by auto
  have 4: "\<forall>d \<in> set summaryData. Avg_Type_Check_ms d \<noteq> ERROR \<longrightarrow> ?m \<le> avg_hundredths d"
    using f(2) by auto
  have 5: "\<exists>d \<in> set summaryData.
              Avg_Type_Check_ms d \<noteq> ERROR \<and> cmp_File r = File d \<and>
              Absolute_Diff_ms r = (True, Fixed2 (avg_hundredths d - ?m)) \<and>
              (0 < ?m \<longrightarrow>
                 (avg_hundredths d = ?m \<longrightarrow> Relative_Speed r = BASELINE) \<and>
                 (avg_hundredths d \<noteq> ?m \<longrightarrow>
                    Relative_Speed r =
                      X_slower (Fixed2 (toFixed2 (real_of_int (avg_hundredths d) / real_of_int ?m))) \<and>
                    1 < real_of_int (avg_hundredths d) / real_of_int ?m))"
    if "r \<in> set ?rows" for r
  proof -
    from that obtain d where d: "d \<in> set ?valid"
      and r: "r = comparison_row_of (Num (real_of_int ?m / 100)) d"
      by auto
    have le: "?m \<le> avg_hundredths d" using d f(2) by blast
    have "1 < real_of_int (avg_hundredths d) / real_of_int ?m"
      if "0 < ?m" "avg_hundredths d \<noteq> ?m"
      using that le by simp
    then show ?thesis
      using d le unfolding r row [OF d]
      by (intro bexI [of _ d]) auto
  qed
  show ?thesis
    using c 1 2 3 4 5 by blast
qed

text \<open>
  Claim C2 describes the comparison table of every run with at least two fixtures. When
  the first measurement of every fixture fails (here: two files that do not exist), no
  row is left after the filter of line 163, and \<^verbatim>\<open>reduce\<close> without an initial value
  throws on the empty array: the summary table has been printed with both rows flagged
  \<^verbatim>\<open>ERROR\<close>, no comparison table is printed and the run ends by the uncaught
  \<^verbatim>\<open>TypeError\<close>.
\<close>

theorem comparison_throws_when_all_fail:
  "fst (runBenchmark missing_world [''a.ts'', ''b.ts''] 5 s0) =
     \<lparr> summary_table =
         [\<lparr> File = ''a.ts'', Avg_Type_Check_ms = ERROR, Min_ms = Dash, Max_ms = Dash,
            Diagnostics = 0 \<rparr>,
          \<lparr> File = ''b.ts'', Avg_Type_Check_ms = ERROR, Min_ms = Dash, Max_ms = Dash,
            Diagnostics = 0 \<rparr>],
       finished = Inl (Error_obj ''Reduce of empty array with no initial value'') \<rparr>"
  by (simp add: s0_def runBenchmark_def example_probes example_fields Let_def
        Object_entries_def is_array_index_def is_decimal_digit_def summary_row_of_def
        comparison_def)

section \<open>Properties of main\<close>

lemma main_no_arguments: "main w [] s = (Usage_exit usage 1, s)"
  by (simp add: main_def)

lemma parseInt_examples:
  "parseInt ''0'' = Some 0" "parseInt ''abc'' = None" "parseInt ''3'' = Some 3"
  "parseInt ''-3'' = Some (- 3)" "parseInt '' 12px'' = Some 12" "parseInt ''0x1f'' = Some 31"
  "parseInt '''' = None"
  by (simp_all add: parseInt_def is_white_space_def is_radix_digit_def digit_value_def
        numeral_value_def Let_def)

lemma split_not_Nil: "split sep s \<noteq> []"
  by (induction s) (simp_all split: list.splits)

lemma split_Cons:
  "split sep (c # cs) =
     (if c = sep then [] # split sep cs else (c # hd (split sep cs)) # tl (split sep cs))"
  using split_not_Nil [of sep cs] by (cases "split sep cs") simp_all

lemma hd_split: "hd (split sep s) = takeWhile (\<lambda>c. c \<noteq> sep) s"
  by (induction s) (simp_all add: split_Cons del: split.simps(2))

lemma split_iterations:
  "split CHR ''='' (''--iterations='' @ v) = ''--iterations'' # split CHR ''='' v"
  by (simp add: split_Cons del: split.simps(2))

lemma takeWhile_takeWhile_subset:
  "(\<And>x. Q x \<Longrightarrow> P x) \<Longrightarrow> takeWhile Q (takeWhile P xs) = takeWhile Q xs"
  by (induction xs) auto

lemma dropWhile_takeWhile_subset:
  "(\<And>x. Q x \<Longrightarrow> P x) \<Longrightarrow> dropWhile Q (takeWhile P xs) = takeWhile P (dropWhile Q xs)"
  by (induction xs) auto

lemma hd_takeWhile_is:
  "P c \<Longrightarrow> (takeWhile P S \<noteq> [] \<and> hd (takeWhile P S) = c) = (S \<noteq> [] \<and> hd S = c)"
  by (cases S) auto

lemma tl_takeWhile_sign:
  "P a \<Longrightarrow> P b \<Longrightarrow>
   (if takeWhile P S \<noteq> [] \<and> (hd (takeWhile P S) = a \<or> hd (takeWhile P S) = b)
    then tl (takeWhile P S) else takeWhile P S)
   = takeWhile P (if S \<noteq> [] \<and> (hd S = a \<or> hd S = b) then tl S else S)"
  by (cases S) auto

lemma take2_takeWhile:
  "P a \<Longrightarrow> P b \<Longrightarrow> (take 2 (takeWhile P S) = [a, b]) = (take 2 S = [a, b])"
  by (cases S; cases "tl S") (auto simp: numeral_2_eq_2)

lemma drop2_takeWhile:
  "P a \<Longrightarrow> P b \<Longrightarrow> take 2 S = [a, b] \<Longrightarrow> drop 2 (takeWhile P S) = takeWhile P (drop 2 S)"
  by (cases S; cases "tl S") (auto simp: numeral_2_eq_2)

lemma white_space_not_eq: "is_white_space c \<Longrightarrow> c \<noteq> CHR ''=''"
  by (auto simp: is_white_space_def)

lemma radix_digit_not_eq: "is_radix_digit R c \<Longrightarrow> c \<noteq> CHR ''=''"
  by (auto simp: is_radix_digit_def digit_value_def Let_def split: option.splits if_splits)

lemma parseInt_upto_eq:
  "parseInt (takeWhile (\<lambda>c. c \<noteq> CHR ''='') v) = parseInt v"
proof -
  let ?P = "\<lambda>c. c \<noteq> CHR ''=''"
  define S where "S = dropWhile is_white_space v"
  define S1 where "S1 = (if S \<noteq> [] \<and> (hd S = CHR ''+'' \<or> hd S = CHR ''-'') then tl S else S)"
  have S: "dropWhile is_white_space (takeWhile ?P v) = takeWhile ?P S"
    unfolding S_def by (rule dropWhile_takeWhile_subset) (rule white_space_not_eq)
  have sign: "(takeWhile ?P S \<noteq> [] \<and> hd (takeWhile ?P S) = CHR ''-'')
                = (S \<noteq> [] \<and> hd S = CHR ''-'')"
    by (rule hd_takeWhile_is) simp
  have S1: "(if takeWhile ?P S \<noteq> [] \<and>
                (hd (takeWhile ?P S) = CHR ''+'' \<or> hd (takeWhile ?P S) = CHR ''-'')
             then tl (takeWhile ?P S) else takeWhile ?P S) = takeWhile ?P S1"
    unfolding S1_def by (rule tl_takeWhile_sign) simp_all
  have hex: "(take 2 (takeWhile ?P S1) = ''0x'') = (take 2 S1 = ''0x'')"
    "(take 2 (takeWhile ?P S1) = ''0X'') = (take 2 S1 = ''0X'')"
    by (rule take2_takeWhile; simp)+
  have drop2: "drop 2 (takeWhile ?P S1) = takeWhile ?P (drop 2 S1)"
    if "take 2 S1 = ''0x'' \<or> take 2 S1 = ''0X''"
    using that
  proof
    assume "take 2 S1 = ''0x''"
    then show ?thesis by (intro drop2_takeWhile [of ?P "CHR ''0''" "CHR ''x''"]) simp_all
  next
    assume "take 2 S1 = ''0X''"
    then show ?thesis by (intro drop2_takeWhile [of ?P "CHR ''0''" "CHR ''X''"]) simp_all
  qed
  have Z: "takeWhile (is_radix_digit R) (takeWhile ?P xs) = takeWhile (is_radix_digit R) xs"
    for R xs
    by (rule takeWhile_takeWhile_subset) (rule radix_digit_not_eq)
  have l: "parseInt (takeWhile ?P v) =
     (let sign = (if S \<noteq> [] \<and> hd S = CHR ''-'' then - 1 else 1 :: int);
          hex = (take 2 S1 = ''0x'' \<or> take 2 S1 = ''0X'');
          R = (if hex then 16 else 10);
          S2 = (if hex then drop 2 (takeWhile ?P S1) else takeWhile ?P S1);
          Z = takeWhile (is_radix_digit R) S2
      in if Z = [] then None else Some (sign * int (numeral_value R Z)))"
    unfolding parseInt_def S Let_def sign S1 hex ..
  have r: "parseInt v =
     (let sign = (if S \<noteq> [] \<and> hd S = CHR ''-'' then - 1 else 1 :: int);
          hex = (take 2 S1 = ''0x'' \<or> take 2 S1 = ''0X'');
          R = (if hex then 16 else 10);
          S2 = (if hex then drop 2 S1 else S1);
          Z = takeWhile (is_radix_digit R) S2
      in if Z = [] then None else Some (sign * int (numeral_value R Z)))"
    unfolding parseInt_def Let_def S1_def S_def ..
  show ?thesis
  proof (cases "take 2 S1 = ''0x'' \<or> take 2 S1 = ''0X''")
    case True
    then show ?thesis unfolding l r Let_def by (simp only: drop2 [OF True] Z if_True)
  next
    case False
    then show ?thesis unfolding l r Let_def by (simp only: Z if_False)
  qed
qed

text \<open>
  Claim C10. When the first argument that starts with \<^verbatim>\<open>--iterations=\<close> is
  \<^verbatim>\<open>--iterations=\<close> followed by \<open>v\<close>, \<open>main\<close> runs the benchmark on the arguments
  that do not start with \<^verbatim>\<open>--iterations=\<close>, with \<open>parseInt v\<close> iterations when
  that is a number other than zero and with 5 iterations when it is \<^verbatim>\<open>NaN\<close> or zero.
\<close>

theorem iterations_argument:
  assumes "find (\<lambda>arg. prefix ''--iterations='' arg) args = Some (''--iterations='' @ v)"
  shows "main w args s =
           (let run = runBenchmark w (filter (\<lambda>arg. \<not> prefix ''--iterations='' arg) args)
                        (case parseInt v of None \<Rightarrow> 5 | Some n \<Rightarrow> if n = 0 then 5 else n) s
            in (Benchmark (fst run), snd run))"
proof -
  from assms have "args \<noteq> []" by auto
  moreover have "iterations_of (''--iterations='' @ v)
    = (case parseInt v of None \<Rightarrow> 5 | Some n \<Rightarrow> if n = 0 then 5 else n)"
    using split_not_Nil [of "CHR ''=''" v] hd_split [of "CHR ''=''" v] parseInt_upto_eq [of v]
    by (cases "split CHR ''='' v") (simp_all add: iterations_of_def split_iterations)
  ultimately show ?thesis using assms by (simp add: main_def Let_def)
qed

theorem iterations_argument_witness:
  "find (\<lambda>arg. prefix ''--iterations='' arg) [''a.ts'', ''--iterations=abc'', ''b.ts'']
     = Some (''--iterations='' @ ''abc'') \<and>
   parseInt ''abc'' = None \<and>
   main missing_world [''a.ts'', ''--iterations=abc'', ''b.ts''] s0 =
     (Benchmark (fst (runBenchmark missing_world [''a.ts'', ''b.ts''] 5 s0)),
      snd (runBenchmark missing_world [''a.ts'', ''b.ts''] 5 s0)) \<and>
   parseInt ''0'' = Some 0 \<and>
   main missing_world [''--iterations=0'', ''a.ts''] s0 =
     (Benchmark (fst (runBenchmark missing_world [''a.ts''] 5 s0)),
      snd (runBenchmark missing_world [''a.ts''] 5 s0)) \<and>
   parseInt ''3'' = Some 3 \<and>
   main missing_world [''--iterations=3'', ''a.ts''] s0 =
     (Benchmark (fst (runBenchmark missing_world [''a.ts''] 3 s0)),
      snd (runBenchmark missing_world [''a.ts''] 3 s0))"
  using iterations_argument [where args = "[''a.ts'', ''--iterations=abc'', ''b.ts'']"
      and v = "''abc''" and w = missing_world and s = s0]
    iterations_argument [where args = "[''--iterations=0'', ''a.ts'']"
      and v = "''0''" and w = missing_world and s = s0]
    iterations_argument [where args = "[''--iterations=3'', ''a.ts'']"
      and v = "''3''" and w = missing_world and s = s0]
  by (simp add: parseInt_examples Let_def)

text \<open>
  Claim C9 says that a command line without a file path prints the usage and exits with
  code 1, also when only flags are given. The test of line 214 is on the number of all
  arguments, before the flag is taken out: with \<^verbatim>\<open>--iterations=3\<close> alone, \<open>main\<close>
  runs the benchmark on the empty list of files, which probes nothing, prints an empty
  summary table and returns.
\<close>

theorem flags_only_runs_benchmark:
  "main w [''--iterations=3''] s =
     (Benchmark \<lparr> summary_table = [], finished = Inr None \<rparr>, s)"
  by (simp add: main_def runBenchmark_def Object_entries_def)

section \<open>Properties of the Batch Orchestrator\<close>

lemma run_files_eq:
  "run_files w testFilter u benchFiles results h =
     (results @ map (\<lambda>f. if is_skipped testFilter f
                          then \<lparr> test = f, test_success = False, skipped = Some True \<rparr>
                          else \<lparr> test = f, test_success = (node_exit w f u = 0), skipped = None \<rparr>)
                    benchFiles,
      h \<or> (\<exists>f \<in> set benchFiles. \<not> is_skipped testFilter f \<and> node_exit w f u \<noteq> 0),
      map (\<lambda>f. Spawn_node f u) (filter (\<lambda>f. \<not> is_skipped testFilter f) benchFiles))"
proof (induction benchFiles arbitrary: results h)
  case Nil
  then show ?case by simp
next
  case (Cons f fs)
  show ?case
  proof (cases "is_skipped testFilter f")
    case True
    then show ?thesis using Cons.IH by simp
  next
    case False
    then show ?thesis using Cons.IH
      by (auto simp: runBenchmark_test_def)
  qed
qed

lemma keep_bench_files_events:
  "set (snd (keep_bench_files w items kept)) \<subseteq> range Stat"
  by (induction items arbitrary: kept) (auto simp: Let_def split: sum.splits)

lemma getBenchmarkFiles_events:
  "set (snd (getBenchmarkFiles w)) \<subseteq> insert Read_dir (range Stat)"
  using keep_bench_files_events [of w _ "[]"]
  by (auto simp: getBenchmarkFiles_def Let_def split: sum.splits)

lemma runGenerate_events: "snd (runGenerate w) = [Spawn_generate]"
  by (simp add: runGenerate_def)

text \<open>
  Claim C7. When the arguments hold both \<^verbatim>\<open>--onlyGenerate\<close> and
  \<^verbatim>\<open>--skipGenerate\<close>, the script ends by the uncaught error of line 64, and nothing has
  happened before: no generation subprocess was spawned, the directory was not listed and
  no fixture was run.
\<close>

theorem both_generate_flags_fail:
  assumes "''--onlyGenerate'' \<in> set args" and "''--skipGenerate'' \<in> set args"
  shows "test_script w args =
           (Uncaught (Error_obj ''Cannot run generate and skip generate at the same time''), [])"
  using assms by (simp add: test_script_def getGenerateOptions_def)

theorem both_generate_flags_fail_witness:
  "''--onlyGenerate'' \<in> set [''--skipGenerate'', ''a'', ''--onlyGenerate''] \<and>
   ''--skipGenerate'' \<in> set [''--skipGenerate'', ''a'', ''--onlyGenerate''] \<and>
   test_script two_fixtures [''--skipGenerate'', ''a'', ''--onlyGenerate''] =
     (Uncaught (Error_obj ''Cannot run generate and skip generate at the same time''), [])"
  using both_generate_flags_fail [of "[''--skipGenerate'', ''a'', ''--onlyGenerate'']" two_fixtures]
  by simp

text \<open>
  A run that prints the final table went through generation (or skipped it), listed the
  directory, and spawned one subprocess for every fixture not skipped, in order.
\<close>

lemma test_script_aggregates:
  assumes "test_script w args = (out, evs)" and "Print_results results u \<in> set evs"
  shows "\<exists>benchFiles pre.
           u = shouldUpdateSnapshots args \<and>
           set pre \<subseteq> insert Spawn_generate (insert Read_dir (range Stat)) \<and>
           evs = pre @ map (\<lambda>f. Spawn_node f u)
                         (filter (\<lambda>f. \<not> is_skipped (getTestFilter args) f) benchFiles)
                   @ [Print_results results u] \<and>
           results = map (\<lambda>f. if is_skipped (getTestFilter args) f
                          then \<lparr> test = f, test_success = False, skipped = Some True \<rparr>
                          else \<lparr> test = f, test_success = (node_exit w f u = 0), skipped = None \<rparr>)
                       benchFiles \<and>
           out = Exit (if \<exists>f \<in> set benchFiles. \<not> is_skipped (getTestFilter args) f \<and>
                            node_exit w f u \<noteq> 0 then 1 else 0)"
proof (cases "getGenerateOptions args")
  case (Inl e)
  then show ?thesis using assms by (simp add: test_script_def)
next
  case (Inr p)
  obtain only skip where p: "p = (only, skip)" by (cases p)
  let ?gen = "if \<not> skip then runGenerate w else (Inr (), [])"
  let ?u = "shouldUpdateSnapshots args"
  have gen_evs: "set (snd ?gen) \<subseteq> {Spawn_generate}" by (simp add: runGenerate_def)
  show ?thesis
  proof (cases "fst ?gen")
    case (Inl e)
    then have "evs = snd ?gen" using assms(1) Inr p by (simp add: test_script_def Let_def)
    then show ?thesis using assms(2) gen_evs by auto
  next
    case gx: (Inr x)
    show ?thesis
    proof (cases only)
      case True
      then have "evs = snd ?gen" using assms(1) Inr p gx by (simp add: test_script_def Let_def)
      then show ?thesis using assms(2) gen_evs by auto
    next
      case no: False
      obtain b bevs where b: "getBenchmarkFiles w = (b, bevs)" by (cases "getBenchmarkFiles w")
      have bsub: "set bevs \<subseteq> insert Read_dir (range Stat)"
        using getBenchmarkFiles_events [of w] b by simp
      show ?thesis
      proof (cases b)
        case (Inl e)
        then have "evs = snd ?gen @ bevs"
          using assms(1) Inr p gx no b by (simp add: test_script_def Let_def)
        then show ?thesis using assms(2) gen_evs bsub by auto
      next
        case bf: (Inr benchFiles)
        let ?revs = "map (\<lambda>f. Spawn_node f ?u)
                       (filter (\<lambda>f. \<not> is_skipped (getTestFilter args) f) benchFiles)"
        let ?rs = "map (\<lambda>f. if is_skipped (getTestFilter args) f
                          then \<lparr> test = f, test_success = False, skipped = Some True \<rparr>
                          else \<lparr> test = f, test_success = (node_exit w f ?u = 0), skipped = None \<rparr>)
                       benchFiles"
        have out: "out = Exit (if \<exists>f \<in> set benchFiles. \<not> is_skipped (getTestFilter args) f \<and>
                            node_exit w f ?u \<noteq> 0 then 1 else 0)"
          and evs: "evs = (snd ?gen @ bevs) @ ?revs @ [Print_results ?rs ?u]"
          using assms(1) Inr p gx no b bf
          by (simp_all add: test_script_def Let_def run_files_eq)
        have "Print_results results u \<notin> set (snd ?gen)" using gen_evs by auto
        moreover have "Print_results results u \<notin> set bevs" using bsub by auto
        moreover have "Print_results results u \<notin> set ?revs" by auto
        ultimately have eq: "results = ?rs" "u = ?u"
          using assms(2) evs by auto
        show ?thesis
          apply (rule exI [of _ benchFiles], rule exI [of _ "snd ?gen @ bevs"])
          using eq evs out gen_evs bsub by auto
      qed
    qed
  qed
qed

text \<open>
  Claim C3. In a run that reaches the final table: the exit status is 1 exactly when a
  fixture subprocess that was spawned exited with a code other than zero, and it is 0
  otherwise; a fixture is recorded as skipped exactly when a filter was given and its name
  does not contain it, and then no subprocess was spawned for it; a fixture not skipped
  was spawned and succeeded exactly when it exited with 0; and when every result is a
  success or a skip the exit status is 0.
\<close>

theorem exit_status_aggregation:
  assumes "test_script w args = (out, evs)" and "Print_results results u \<in> set evs"
  shows "(out = Exit 1 \<longleftrightarrow> (\<exists>f. Spawn_node f u \<in> set evs \<and> node_exit w f u \<noteq> 0)) \<and>
         (out = Exit 1 \<or> out = Exit 0) \<and>
         (\<forall>r \<in> set results.
            (skipped r = Some True \<longleftrightarrow>
               (\<exists>t. getTestFilter args = Some t \<and> t \<noteq> [] \<and> \<not> sublist t (test r))) \<and>
            (skipped r = Some True \<longrightarrow> Spawn_node (test r) u \<notin> set evs) \<and>
            (skipped r \<noteq> Some True \<longrightarrow>
               Spawn_node (test r) u \<in> set evs \<and> test_success r = (node_exit w (test r) u = 0))) \<and>
         ((\<forall>r \<in> set results. test_success r \<or> skipped r = Some True) \<longrightarrow> out = Exit 0)"
proof -
  let ?sk = "is_skipped (getTestFilter args)"
  from test_script_aggregates [OF assms] obtain benchFiles pre where
    pre: "set pre \<subseteq> insert Spawn_generate (insert Read_dir (range Stat))"
    and evs: "evs = pre @ map (\<lambda>f. Spawn_node f u) (filter (\<lambda>f. \<not> ?sk f) benchFiles)
                @ [Print_results results u]"
    and rs: "results = map (\<lambda>f. if ?sk f
                          then \<lparr> test = f, test_success = False, skipped = Some True \<rparr>
                          else \<lparr> test = f, test_success = (node_exit w f u = 0), skipped = None \<rparr>)
                       benchFiles"
    and out: "out = Exit (if \<exists>f \<in> set benchFiles. \<not> ?sk f \<and> node_exit w f u \<noteq> 0 then 1 else 0)"
    by blast
  have spawned: "Spawn_node f u \<in> set evs \<longleftrightarrow> f \<in> set benchFiles \<and> \<not> ?sk f" for f
    using pre evs by auto
  have sk: "?sk f \<longleftrightarrow> (\<exists>t. getTestFilter args = Some t \<and> t \<noteq> [] \<and> \<not> sublist t f)" for f
    by (simp add: is_skipped_def split: option.splits)
  have 1: "out = Exit 1 \<longleftrightarrow> (\<exists>f. Spawn_node f u \<in> set evs \<and> node_exit w f u \<noteq> 0)"
    using out spawned by auto
  have 2: "out = Exit 1 \<or> out = Exit 0" using out by simp
  have 3: "(skipped r = Some True \<longleftrightarrow>
               (\<exists>t. getTestFilter args = Some t \<and> t \<noteq> [] \<and> \<not> sublist t (test r))) \<and>
            (skipped r = Some True \<longrightarrow> Spawn_node (test r) u \<notin> set evs) \<and>
            (skipped r \<noteq> Some True \<longrightarrow>
               Spawn_node (test r) u \<in> set evs \<and> test_success r = (node_exit w (test r) u = 0))"
    if "r \<in> set results" for r
  proof -
    from that rs obtain f where f: "f \<in> set benchFiles"
      and r: "r = (if ?sk f then \<lparr> test = f, test_success = False, skipped = Some True \<rparr>
                   else \<lparr> test = f, test_success = (node_exit w f u = 0), skipped = None \<rparr>)"
      by auto
    show ?thesis using f r spawned [of f] sk [of f] by (cases "?sk f") simp_all
  qed
  have 4: "out = Exit 0" if "\<forall>r \<in> set results. test_success r \<or> skipped r = Some True"
  proof -
    have "\<not> (\<exists>f \<in> set benchFiles. \<not> ?sk f \<and> node_exit w f u \<noteq> 0)"
    proof
      assume "\<exists>f \<in> set benchFiles. \<not> ?sk f \<and> node_exit w f u \<noteq> 0"
      then obtain f where f: "f \<in> set benchFiles" "\<not> ?sk f" "node_exit w f u \<noteq> 0" by blast
      then have "\<lparr> test = f, test_success = False, skipped = None \<rparr> \<in> set results"
        using rs by force
      with that show False by force
    qed
    then show ?thesis using out by simp
  qed
  show ?thesis using 1 2 3 4 by blast
qed

theorem exit_status_aggregation_witness:
  "test_script two_fixtures [''--skipGenerate'', ''a''] =
     (Exit 0,
      [Read_dir, Stat ''a.bench.ts'', Stat ''b.bench.ts'', Stat ''benchmark.md'',
       Spawn_node ''a.bench.ts'' False,
       Print_results [\<lparr> test = ''a.bench.ts'', test_success = True, skipped = None \<rparr>,
                      \<lparr> test = ''b.bench.ts'', test_success = False, skipped = Some True \<rparr>]
         False]) \<and>
   node_exit two_fixtures ''a.bench.ts'' False = 0 \<and>
   getTestFilter [''--skipGenerate'', ''a''] = Some ''a'' \<and>
   \<not> sublist ''a'' ''b.bench.ts''"
  using exit_status_aggregation [of two_fixtures "[''--skipGenerate'', ''a'']" "Exit 0"
      "[Read_dir, Stat ''a.bench.ts'', Stat ''b.bench.ts'', Stat ''benchmark.md'',
        Spawn_node ''a.bench.ts'' False,
        Print_results [\<lparr> test = ''a.bench.ts'', test_success = True, skipped = None \<rparr>,
                       \<lparr> test = ''b.bench.ts'', test_success = False, skipped = Some True \<rparr>]
          False]"
      "[\<lparr> test = ''a.bench.ts'', test_success = True, skipped = None \<rparr>,
        \<lparr> test = ''b.bench.ts'', test_success = False, skipped = Some True \<rparr>]" False]
  by (simp add: test_script_def getGenerateOptions_def getTestFilter_def shouldUpdateSnapshots_def
        getBenchmarkFiles_def two_fixtures_def runBenchmark_test_def is_skipped_def
        suffix_to_prefix sublist_Cons_right)

end
